theory Spec2Isabelle
  imports Complex_Main
begin

section \<open>Data model\<close>

text \<open>
  Identifiers drawn with \<open>uuidv4()\<close> are modelled as natural numbers taken from a counter
  held in the store, so that two draws never return the same identifier. User ids are the
  strings the callers pass. Timestamps are milliseconds since the epoch; every operation
  receives the reading of the clock (\<open>new Date()\<close>) as its argument \<open>now\<close>. Amounts are
  integers (minor currency units), the values on which the JavaScript \<open>number\<close> arithmetic
  of the source is exact.
\<close>

type_synonym docid = nat
type_synonym userid = string
type_synonym time = int

datatype tx_type = Deposit | Withdrawal | TipSent | TipReceived | ReferralBonus | Fee

datatype status = Pending | Processing | Completed | Failed | Cancelled

datatype platform = Whatsapp | MobileApp

text \<open>
  A date field of a document as \<open>doc.data()\<close> returns it: a Firestore Timestamp, with its
  seconds and nanoseconds. \<open>getUserById\<close> hands the user document on unconverted, so this is
  what the referral service finds in \<open>createdAt\<close>.
\<close>

datatype firestore_timestamp = Timestamp int int

text \<open>models/Wallet.ts, interface \<open>IWallet\<close>.\<close>

record IWallet =
  wid :: docid
  userId :: userid
  balance :: int
  currency :: string
  createdAt :: time
  updatedAt :: time
  isActive :: bool
  totalDeposits :: int
  totalWithdrawals :: int
  totalTipsSent :: int
  totalTipsReceived :: int
  totalReferralEarnings :: int
  lastTransactionAt :: "time option"
  failedPinAttempts :: int

text \<open>The \<open>metadata\<close> bag of a transaction, with the keys the wallet service writes.\<close>

record metadata =
  m_tipId :: "docid option"
  m_platform :: "platform option"
  m_isAnonymous :: "bool option"
  m_referredId :: "userid option"
  m_level :: "nat option"
  m_referrerId :: "userid option"

text \<open>models/Transaction.ts, interface \<open>ITransaction\<close>.\<close>

record ITransaction =
  t_id :: docid
  t_userId :: userid
  t_type :: tx_type
  t_amount :: int
  t_description :: string
  t_status :: status
  t_reference :: "string option"
  t_recipientId :: "userid option"
  t_senderId :: "userid option"
  t_currency :: string
  t_fee :: "int option"
  t_netAmount :: int
  t_metadata :: "metadata option"
  t_createdAt :: time
  t_updatedAt :: time
  t_completedAt :: "time option"

text \<open>The object literal handed to \<open>TransactionModel.createTransactionData\<close>.\<close>

record TransactionInput =
  i_id :: docid
  i_userId :: userid
  i_type :: tx_type
  i_amount :: int
  i_description :: string
  i_status :: status
  i_reference :: "string option"
  i_recipientId :: "userid option"
  i_senderId :: "userid option"
  i_currency :: string
  i_fee :: "int option"
  i_netAmount :: int
  i_metadata :: "metadata option"

text \<open>models/Tip.ts, interface \<open>ITip\<close>.\<close>

record ITip =
  tip_id :: docid
  tip_senderId :: userid
  tip_recipientId :: userid
  tip_amount :: int
  tip_description :: string
  tip_isAnonymous :: bool
  tip_status :: status
  tip_currency :: string
  tip_fee :: int
  tip_netAmount :: int
  tip_platform :: platform
  tip_createdAt :: time
  tip_updatedAt :: time
  tip_completedAt :: "time option"

text \<open>models/Referral.ts, interface \<open>IReferral\<close>.\<close>

record IReferral =
  r_id :: docid
  r_referrerId :: userid
  r_referredId :: userid
  r_level :: nat
  r_bonus :: int
  r_status :: status
  r_referralCode :: string
  r_platform :: platform
  r_createdAt :: time
  r_updatedAt :: time
  r_completedAt :: "time option"
  r_bonusTransactionId :: "docid option"

text \<open>models/User.ts, interface \<open>IUser\<close>: the fields the referral service reads.\<close>

record IUser =
  u_id :: userid
  u_createdAt :: firestore_timestamp
  u_referralCode :: string
  u_referredBy :: "userid option"

text \<open>
  The document store. A collection queried by field is a list in the order the query
  returns its documents; the \<open>users\<close> collection is only read by document key. Writing a
  document under a freshly drawn id appends it.
\<close>

record store =
  wallets :: "IWallet list"
  transactions :: "ITransaction list"
  tips :: "ITip list"
  referrals :: "IReferral list"
  users :: "userid \<rightharpoonup> IUser"
  nextId :: nat

datatype error =
    WalletNotFound
  | InsufficientBalance
  | CannotTipYourself
  | SenderWalletNotFound
  | ReferrerWalletNotFound
  | ReferrerNotFound
  | ReferralAlreadyExists
  | StoreWriteFailed

text \<open>\<open>TransactionResult\<close>: \<open>{success: true, transactionId, newBalance}\<close> or
  \<open>{success: false, error}\<close>.\<close>

datatype TransactionResult = Success docid int | Failure error

section \<open>Wallet service\<close>

definition uuidv4 :: "store \<Rightarrow> docid \<times> store" where
  "uuidv4 s = (nextId s, s\<lparr>nextId := Suc (nextId s)\<rparr>)"

definition createTransactionData :: "time \<Rightarrow> TransactionInput \<Rightarrow> ITransaction" where
  "createTransactionData now d =
     \<lparr>t_id = i_id d,
      t_userId = i_userId d,
      t_type = i_type d,
      t_amount = i_amount d,
      t_description = i_description d,
      t_status = i_status d,
      t_reference = i_reference d,
      t_recipientId = i_recipientId d,
      t_senderId = i_senderId d,
      t_currency = (if i_currency d = [] then ''NGN'' else i_currency d),
      t_fee = i_fee d,
      t_netAmount = i_netAmount d,
      t_metadata = i_metadata d,
      t_createdAt = now,
      t_updatedAt = now,
      t_completedAt = None\<rparr>"

definition createWalletData :: "time \<Rightarrow> docid \<Rightarrow> userid \<Rightarrow> string \<Rightarrow> IWallet" where
  "createWalletData now i uid cur =
     \<lparr>wid = i,
      userId = uid,
      balance = 0,
      currency = (if cur = [] then ''NGN'' else cur),
      createdAt = now,
      updatedAt = now,
      isActive = True,
      totalDeposits = 0,
      totalWithdrawals = 0,
      totalTipsSent = 0,
      totalTipsReceived = 0,
      totalReferralEarnings = 0,
      lastTransactionAt = None,
      failedPinAttempts = 0\<rparr>"

definition updateWalletData :: "time \<Rightarrow> IWallet \<Rightarrow> (IWallet \<Rightarrow> IWallet) \<Rightarrow> IWallet" where
  "updateWalletData now wallet updates = (updates wallet)\<lparr>updatedAt := now\<rparr>"

text \<open>\<open>collections.wallets.doc(id).update(fields)\<close>: the document with that id gets the
  fields, every other document stays.\<close>

definition updateWalletDoc :: "docid \<Rightarrow> (IWallet \<Rightarrow> IWallet) \<Rightarrow> IWallet list \<Rightarrow> IWallet list" where
  "updateWalletDoc i f ws = map (\<lambda>w. if wid w = i then f w else w) ws"

definition createWallet :: "store \<Rightarrow> time \<Rightarrow> userid \<Rightarrow> string \<Rightarrow> IWallet \<times> store" where
  "createWallet s now uid cur =
     (let (walletId, s1) = uuidv4 s;
          walletData = createWalletData now walletId uid cur
      in (walletData, s1\<lparr>wallets := wallets s1 @ [walletData]\<rparr>))"

definition getWalletByUserId :: "store \<Rightarrow> userid \<Rightarrow> IWallet option" where
  "getWalletByUserId s uid = find (\<lambda>w. userId w = uid) (wallets s)"

definition ensureWalletExists :: "store \<Rightarrow> time \<Rightarrow> userid \<Rightarrow> string \<Rightarrow> IWallet \<times> store" where
  "ensureWalletExists s now uid cur =
     (case getWalletByUserId s uid of
        None \<Rightarrow> createWallet s now uid cur
      | Some wallet \<Rightarrow> (wallet, s))"

definition creditWallet ::
  "store \<Rightarrow> time \<Rightarrow> userid \<Rightarrow> int \<Rightarrow> string \<Rightarrow> string option \<Rightarrow> metadata option
     \<Rightarrow> TransactionResult \<times> store" where
  "creditWallet s now uid amount description reference md =
     (case getWalletByUserId s uid of
        None \<Rightarrow> (Failure WalletNotFound, s)
      | Some wallet \<Rightarrow>
          let newBalance = balance wallet + amount;
              updatedWallet = updateWalletData now wallet
                (\<lambda>w. w\<lparr>balance := newBalance,
                        totalDeposits := totalDeposits wallet + amount,
                        lastTransactionAt := Some now\<rparr>);
              s1 = s\<lparr>wallets := updateWalletDoc (wid wallet)
                     (\<lambda>w. w\<lparr>balance := balance updatedWallet,
                             totalDeposits := totalDeposits updatedWallet,
                             lastTransactionAt := lastTransactionAt updatedWallet,
                             updatedAt := updatedAt updatedWallet\<rparr>) (wallets s)\<rparr>;
              (transactionId, s2) = uuidv4 s1;
              transactionData = createTransactionData now
                \<lparr>i_id = transactionId,
                 i_userId = uid,
                 i_type = Deposit,
                 i_amount = amount,
                 i_description = description,
                 i_status = Completed,
                 i_reference = reference,
                 i_recipientId = None,
                 i_senderId = None,
                 i_currency = currency wallet,
                 i_fee = Some 0,
                 i_netAmount = amount,
                 i_metadata = md\<rparr>
          in (Success transactionId newBalance,
              s2\<lparr>transactions := transactions s2 @ [transactionData]\<rparr>))"

definition debitWallet ::
  "store \<Rightarrow> time \<Rightarrow> userid \<Rightarrow> int \<Rightarrow> string \<Rightarrow> int \<Rightarrow> string option \<Rightarrow> metadata option
     \<Rightarrow> TransactionResult \<times> store" where
  "debitWallet s now uid amount description fee reference md =
     (case getWalletByUserId s uid of
        None \<Rightarrow> (Failure WalletNotFound, s)
      | Some wallet \<Rightarrow>
          if balance wallet < amount then (Failure InsufficientBalance, s)
          else
            let newBalance = balance wallet - amount;
                updatedWallet = updateWalletData now wallet
                  (\<lambda>w. w\<lparr>balance := newBalance,
                          totalWithdrawals := totalWithdrawals wallet + amount,
                          lastTransactionAt := Some now\<rparr>);
                s1 = s\<lparr>wallets := updateWalletDoc (wid wallet)
                       (\<lambda>w. w\<lparr>balance := balance updatedWallet,
                               totalWithdrawals := totalWithdrawals updatedWallet,
                               lastTransactionAt := lastTransactionAt updatedWallet,
                               updatedAt := updatedAt updatedWallet\<rparr>) (wallets s)\<rparr>;
                (transactionId, s2) = uuidv4 s1;
                transactionData = createTransactionData now
                  \<lparr>i_id = transactionId,
                   i_userId = uid,
                   i_type = Withdrawal,
                   i_amount = - amount,
                   i_description = description,
                   i_status = Completed,
                   i_reference = reference,
                   i_recipientId = None,
                   i_senderId = None,
                   i_currency = currency wallet,
                   i_fee = Some fee,
                   i_netAmount = amount - fee,
                   i_metadata = md\<rparr>
            in (Success transactionId newBalance,
                s2\<lparr>transactions := transactions s2 @ [transactionData]\<rparr>))"

text \<open>Decimal rendering of a number inside a template string.\<close>

fun string_of_nat :: "nat \<Rightarrow> string" where
  "string_of_nat n =
     (if n < 10 then [char_of (48 + n)]
      else string_of_nat (n div 10) @ [char_of (48 + n mod 10)])"

declare string_of_nat.simps [simp del]

definition processReferralBonus ::
  "store \<Rightarrow> time \<Rightarrow> userid \<Rightarrow> userid \<Rightarrow> nat \<Rightarrow> int \<Rightarrow> TransactionResult \<times> store" where
  "processReferralBonus s now referrerId referredId level bonusAmount =
     (case getWalletByUserId s referrerId of
        None \<Rightarrow> (Failure ReferrerWalletNotFound, s)
      | Some wallet \<Rightarrow>
          let newBalance = balance wallet + bonusAmount;
              updatedWallet = updateWalletData now wallet
                (\<lambda>w. w\<lparr>balance := newBalance,
                        totalReferralEarnings := totalReferralEarnings wallet + bonusAmount,
                        lastTransactionAt := Some now\<rparr>);
              s1 = s\<lparr>wallets := updateWalletDoc (wid wallet)
                     (\<lambda>w. w\<lparr>balance := balance updatedWallet,
                             totalReferralEarnings := totalReferralEarnings updatedWallet,
                             lastTransactionAt := lastTransactionAt updatedWallet,
                             updatedAt := updatedAt updatedWallet\<rparr>) (wallets s)\<rparr>;
              (transactionId, s2) = uuidv4 s1;
              transactionData = createTransactionData now
                \<lparr>i_id = transactionId,
                 i_userId = referrerId,
                 i_type = ReferralBonus,
                 i_amount = bonusAmount,
                 i_description = ''Referral bonus for level '' @ string_of_nat level @ '' referral'',
                 i_status = Completed,
                 i_reference = None,
                 i_recipientId = None,
                 i_senderId = None,
                 i_currency = currency wallet,
                 i_fee = Some 0,
                 i_netAmount = bonusAmount,
                 i_metadata = Some \<lparr>m_tipId = None, m_platform = None, m_isAnonymous = None,
                                     m_referredId = Some referredId, m_level = Some level,
                                     m_referrerId = Some referrerId\<rparr>\<rparr>
          in (Success transactionId newBalance,
              s2\<lparr>transactions := transactions s2 @ [transactionData]\<rparr>))"


subsection \<open>Tip settlement\<close>

text \<open>
  \<open>Math.round\<close> rounds to the nearest integer, a tie towards plus infinity. The product
  \<open>amount * 0.02\<close> is taken as the exact rational \<open>amount * 2 / 100\<close>.
\<close>

definition Math_round :: "rat \<Rightarrow> int" where
  "Math_round x = \<lfloor>x + 1 / 2\<rfloor>"

text \<open>
  The store writes of \<open>processTip\<close>, in the order of the source. Each is awaited inside the
  one \<open>try\<close> block, so a write that throws ends the call in the \<open>catch\<close> branch with the
  earlier writes in place. The argument \<open>fault\<close> names the write that throws, if any.
\<close>

datatype tip_write =
    CreateRecipientWallet
  | UpdateSenderWallet
  | UpdateRecipientWallet
  | SetTip
  | SetFeeTransaction
  | SetSenderTransaction
  | SetRecipientTransaction

text \<open>The part of \<open>processTip\<close> after both wallets are at hand (source lines 245 to 375).\<close>

definition processTip_settle ::
  "store \<Rightarrow> time \<Rightarrow> tip_write option \<Rightarrow> IWallet \<Rightarrow> IWallet \<Rightarrow> userid \<Rightarrow> userid \<Rightarrow> int
     \<Rightarrow> platform \<Rightarrow> string option \<Rightarrow> bool \<Rightarrow> TransactionResult \<times> store" where
  "processTip_settle s now fault senderWallet recipientWallet senderId recipientId amount
       platform description isAnonymous =
     (let fee = (if platform = MobileApp
                 then Math_round (of_int amount * (2 / 100))
                 else Math_round (of_int amount * (2 / 100)));
          netAmount = amount - fee
      in
      if balance senderWallet < amount then (Failure InsufficientBalance, s)
      else
        let senderNewBalance = balance senderWallet - amount;
            updatedSenderWallet = updateWalletData now senderWallet
              (\<lambda>w. w\<lparr>balance := senderNewBalance,
                      totalTipsSent := totalTipsSent senderWallet + amount,
                      lastTransactionAt := Some now\<rparr>);
            recipientNewBalance = balance recipientWallet + netAmount;
            updatedRecipientWallet = updateWalletData now recipientWallet
              (\<lambda>w. w\<lparr>balance := recipientNewBalance,
                      totalTipsReceived := totalTipsReceived recipientWallet + netAmount,
                      lastTransactionAt := Some now\<rparr>)
        in
        if fault = Some UpdateSenderWallet then (Failure StoreWriteFailed, s)
        else
          let s1 = s\<lparr>wallets := updateWalletDoc (wid senderWallet)
                     (\<lambda>w. w\<lparr>balance := balance updatedSenderWallet,
                             totalTipsSent := totalTipsSent updatedSenderWallet,
                             lastTransactionAt := lastTransactionAt updatedSenderWallet,
                             updatedAt := updatedAt updatedSenderWallet\<rparr>) (wallets s)\<rparr>
          in
          if fault = Some UpdateRecipientWallet then (Failure StoreWriteFailed, s1)
          else
            let s2 = s1\<lparr>wallets := updateWalletDoc (wid recipientWallet)
                       (\<lambda>w. w\<lparr>balance := balance updatedRecipientWallet,
                               totalTipsReceived := totalTipsReceived updatedRecipientWallet,
                               lastTransactionAt := lastTransactionAt updatedRecipientWallet,
                               updatedAt := updatedAt updatedRecipientWallet\<rparr>) (wallets s1)\<rparr>;
                (tipId, s3) = uuidv4 s2;
                tipData =
                  \<lparr>tip_id = tipId,
                   tip_senderId = senderId,
                   tip_recipientId = recipientId,
                   tip_amount = amount,
                   tip_description =
                     (if description = None \<or> description = Some []
                      then ''Tip received from '' @ (if isAnonymous then ''Anonymous'' else ''a user'')
                      else the description),
                   tip_isAnonymous = isAnonymous,
                   tip_status = Completed,
                   tip_currency = currency senderWallet,
                   tip_fee = fee,
                   tip_netAmount = netAmount,
                   tip_platform = platform,
                   tip_createdAt = now,
                   tip_updatedAt = now,
                   tip_completedAt = Some now\<rparr>
            in
            if fault = Some SetTip then (Failure StoreWriteFailed, s3)
            else
              let s4 = s3\<lparr>tips := tips s3 @ [tipData]\<rparr>;
                  tipMeta = \<lparr>m_tipId = Some tipId, m_platform = Some platform,
                             m_isAnonymous = Some isAnonymous, m_referredId = None,
                             m_level = None, m_referrerId = None\<rparr>;
                  (senderTransactionId, s5) = uuidv4 s4;
                  senderTransaction = createTransactionData now
                    \<lparr>i_id = senderTransactionId,
                     i_userId = senderId,
                     i_type = TipSent,
                     i_amount = - amount,
                     i_description = ''Tip sent to '' @ recipientId,
                     i_status = Completed,
                     i_reference = None,
                     i_recipientId = Some recipientId,
                     i_senderId = None,
                     i_currency = currency senderWallet,
                     i_fee = Some fee,
                     i_netAmount = - amount,
                     i_metadata = Some tipMeta\<rparr>;
                  (recipientTransactionId, s6) = uuidv4 s5;
                  recipientTransaction = createTransactionData now
                    \<lparr>i_id = recipientTransactionId,
                     i_userId = recipientId,
                     i_type = TipReceived,
                     i_amount = netAmount,
                     i_description =
                       ''Tip received from '' @ (if isAnonymous then ''Anonymous'' else senderId),
                     i_status = Completed,
                     i_reference = None,
                     i_recipientId = None,
                     i_senderId = Some senderId,
                     i_currency = currency recipientWallet,
                     i_fee = Some 0,
                     i_netAmount = netAmount,
                     i_metadata = Some tipMeta\<rparr>;
                  feeStep =
                    (if fee > 0 then
                       let (feeTransactionId, s7) = uuidv4 s6;
                           feeTransaction = createTransactionData now
                             \<lparr>i_id = feeTransactionId,
                              i_userId = senderId,
                              i_type = Fee,
                              i_amount = - fee,
                              i_description = ''Tip processing fee'',
                              i_status = Completed,
                              i_reference = None,
                              i_recipientId = None,
                              i_senderId = None,
                              i_currency = currency senderWallet,
                              i_fee = Some 0,
                              i_netAmount = - fee,
                              i_metadata = Some (tipMeta\<lparr>m_isAnonymous := None\<rparr>)\<rparr>
                       in if fault = Some SetFeeTransaction then Inl s7
                          else Inr (s7\<lparr>transactions := transactions s7 @ [feeTransaction]\<rparr>)
                     else Inr s6)
              in
              case feeStep of
                Inl s7 \<Rightarrow> (Failure StoreWriteFailed, s7)
              | Inr s8 \<Rightarrow>
                  if fault = Some SetSenderTransaction then (Failure StoreWriteFailed, s8)
                  else
                    let s9 = s8\<lparr>transactions := transactions s8 @ [senderTransaction]\<rparr>
                    in
                    if fault = Some SetRecipientTransaction then (Failure StoreWriteFailed, s9)
                    else
                      (Success tipId senderNewBalance,
                       s9\<lparr>transactions := transactions s9 @ [recipientTransaction]\<rparr>))"

definition processTip ::
  "store \<Rightarrow> time \<Rightarrow> tip_write option \<Rightarrow> userid \<Rightarrow> userid \<Rightarrow> int \<Rightarrow> platform \<Rightarrow> string option
     \<Rightarrow> bool \<Rightarrow> TransactionResult \<times> store" where
  "processTip s now fault senderId recipientId amount platform description isAnonymous =
     (if senderId = recipientId then (Failure CannotTipYourself, s)
      else
        case getWalletByUserId s senderId of
          None \<Rightarrow> (Failure SenderWalletNotFound, s)
        | Some senderWallet \<Rightarrow>
            (case getWalletByUserId s recipientId of
               Some recipientWallet \<Rightarrow>
                 processTip_settle s now fault senderWallet recipientWallet senderId recipientId
                   amount platform description isAnonymous
             | None \<Rightarrow>
                 if fault = Some CreateRecipientWallet
                 then (Failure StoreWriteFailed, snd (uuidv4 s))
                 else
                   let (recipientWallet, s0) =
                         createWallet s now recipientId (currency senderWallet)
                   in processTip_settle s0 now fault senderWallet recipientWallet senderId
                        recipientId amount platform description isAnonymous))"

subsection \<open>Limit policy\<close>

text \<open>The \<open>type\<close> argument of \<open>validateTransactionLimits\<close>: \<open>'tip' | 'withdrawal' | 'deposit'\<close>.\<close>

datatype limit_type = TipLimit | WithdrawalLimit | DepositLimit

record limit =
  minimum :: int
  maximum :: int
  dailyLimit :: int

definition limits :: "limit_type \<Rightarrow> limit" where
  "limits ty =
     (case ty of
        TipLimit \<Rightarrow> \<lparr>minimum = 10, maximum = 50000, dailyLimit = 100000\<rparr>
      | WithdrawalLimit \<Rightarrow> \<lparr>minimum = 100, maximum = 500000, dailyLimit = 1000000\<rparr>
      | DepositLimit \<Rightarrow> \<lparr>minimum = 100, maximum = 2000000, dailyLimit = 5000000\<rparr>)"

text \<open>The three messages of the source, with the bound they print.\<close>

datatype limit_error =
    MinimumAmount limit_type int
  | MaximumAmount limit_type int
  | DailyLimitExceeded limit_type int

datatype validation = Valid | Invalid limit_error

text \<open>The transaction type a limit type is compared with:
  \<open>type === 'tip' ? 'tip_sent' : type\<close>.\<close>

definition limitTxType :: "limit_type \<Rightarrow> tx_type" where
  "limitTxType ty =
     (if ty = TipLimit then TipSent
      else (case ty of WithdrawalLimit \<Rightarrow> Withdrawal | DepositLimit \<Rightarrow> Deposit | TipLimit \<Rightarrow> TipSent))"

text \<open>\<open>today\<close> is the local midnight the source computes with \<open>setHours(0, 0, 0, 0)\<close>.\<close>

definition validateTransactionLimits ::
  "time \<Rightarrow> int \<Rightarrow> limit_type \<Rightarrow> ITransaction list \<Rightarrow> validation" where
  "validateTransactionLimits today amount ty userTransactions =
     (let lim = limits ty in
      if amount < minimum lim then Invalid (MinimumAmount ty (minimum lim))
      else if amount > maximum lim then Invalid (MaximumAmount ty (maximum lim))
      else
        let todayTransactions =
              filter (\<lambda>t. t_createdAt t \<ge> today \<and> t_type t = limitTxType ty) userTransactions;
            todayTotal = foldl (\<lambda>sum t. sum + \<bar>t_amount t\<bar>) 0 todayTransactions
        in if todayTotal + amount > dailyLimit lim
           then Invalid (DailyLimitExceeded ty (dailyLimit lim))
           else Valid)"

section \<open>Referral service\<close>

text \<open>The keys of \<open>REFERRAL_BONUSES\<close>.\<close>

datatype ref_level = Level1 | Level2 | Level3

definition levelNumber :: "ref_level \<Rightarrow> nat" where
  "levelNumber l = (case l of Level1 \<Rightarrow> 1 | Level2 \<Rightarrow> 2 | Level3 \<Rightarrow> 3)"

definition REFERRAL_BONUSES :: "ref_level \<Rightarrow> int" where
  "REFERRAL_BONUSES l = (case l of Level1 \<Rightarrow> 100 | Level2 \<Rightarrow> 50 | Level3 \<Rightarrow> 25)"

definition MIN_ACTIVE_DAYS :: int where
  "MIN_ACTIVE_DAYS = 30"

text \<open>\<open>{success: true, referralId, bonusProcessed}\<close> or \<open>{success: false, error}\<close>.\<close>

datatype ReferralResult = ReferralSuccess docid bool | ReferralFailure error

definition createReferralData ::
  "time \<Rightarrow> docid \<Rightarrow> userid \<Rightarrow> userid \<Rightarrow> nat \<Rightarrow> int \<Rightarrow> status \<Rightarrow> string \<Rightarrow> platform \<Rightarrow> IReferral" where
  "createReferralData now i referrerId referredId level bonus st code plat =
     \<lparr>r_id = i,
      r_referrerId = referrerId,
      r_referredId = referredId,
      r_level = (if level = 0 then 1 else level),
      r_bonus = bonus,
      r_status = st,
      r_referralCode = code,
      r_platform = plat,
      r_createdAt = now,
      r_updatedAt = now,
      r_completedAt = None,
      r_bonusTransactionId = None\<rparr>"

definition getUserById :: "store \<Rightarrow> userid \<Rightarrow> IUser option" where
  "getUserById s uid = users s uid"

definition getReferralByUsers :: "store \<Rightarrow> userid \<Rightarrow> userid \<Rightarrow> IReferral option" where
  "getReferralByUsers s referrerId referredId =
     find (\<lambda>r. r_referrerId r = referrerId \<and> r_referredId r = referredId) (referrals s)"

text \<open>\<open>collections.referrals.doc(id).update({status: 'completed', ...})\<close>.\<close>

definition completeReferralDoc :: "time \<Rightarrow> docid \<Rightarrow> docid \<Rightarrow> IReferral list \<Rightarrow> IReferral list" where
  "completeReferralDoc now i txid rs =
     map (\<lambda>r. if r_id r = i
               then r\<lparr>r_status := Completed, r_completedAt := Some now, r_updatedAt := now,
                      r_bonusTransactionId := Some txid\<rparr>
               else r) rs"

text \<open>
  What \<open>checkLevel3Eligibility\<close> leaves to the JavaScript runtime and to the Firestore
  client, neither of which is part of the repository:
  \<^item> \<open>setDateBack d n\<close> is the Date left in \<open>d\<close> by \<open>d.setDate(d.getDate() - n)\<close>, that is
    \<open>n\<close> calendar days earlier in the local time zone;
  \<^item> \<open>timestampLe ts d\<close> is the value of the expression \<open>ts <= d\<close> for a Firestore Timestamp
    \<open>ts\<close> and a Date \<open>d\<close>.
  The referral operations receive them as the argument \<open>rt\<close>.
\<close>

record runtime =
  setDateBack :: "time \<Rightarrow> int \<Rightarrow> time"
  timestampLe :: "firestore_timestamp \<Rightarrow> time \<Rightarrow> bool"

definition checkLevel3Eligibility :: "runtime \<Rightarrow> store \<Rightarrow> time \<Rightarrow> userid \<Rightarrow> bool" where
  "checkLevel3Eligibility rt s now uid =
     (case getUserById s uid of
        None \<Rightarrow> False
      | Some user \<Rightarrow>
          let minActiveDate = setDateBack rt now MIN_ACTIVE_DAYS
          in timestampLe rt (u_createdAt user) minActiveDate)"

definition createHigherLevelReferral ::
  "store \<Rightarrow> time \<Rightarrow> userid \<Rightarrow> userid \<Rightarrow> ref_level \<Rightarrow> platform \<Rightarrow> store" where
  "createHigherLevelReferral s now referrerId referredId level plat =
     (let (referralId, s1) = uuidv4 s;
          referralData = createReferralData now referralId referrerId referredId
                           (levelNumber level) (REFERRAL_BONUSES level) Pending [] plat;
          s2 = s1\<lparr>referrals := referrals s1 @ [referralData]\<rparr>;
          (bonusResult, s3) = processReferralBonus s2 now referrerId referredId
                                (levelNumber level) (REFERRAL_BONUSES level)
      in case bonusResult of
           Success transactionId newBalance \<Rightarrow>
             s3\<lparr>referrals := completeReferralDoc now referralId transactionId (referrals s3)\<rparr>
         | Failure e \<Rightarrow> s3)"

text \<open>A \<open>referredBy\<close> that is absent or the empty string is falsy.\<close>

definition truthy :: "userid option \<Rightarrow> bool" where
  "truthy x = (case x of None \<Rightarrow> False | Some v \<Rightarrow> v \<noteq> [])"

definition processHigherLevelReferrals ::
  "runtime \<Rightarrow> store \<Rightarrow> time \<Rightarrow> userid \<Rightarrow> userid \<Rightarrow> platform \<Rightarrow> store" where
  "processHigherLevelReferrals rt s now referrerId referredId plat =
     (case getUserById s referrerId of
        None \<Rightarrow> s
      | Some referrer \<Rightarrow>
          if truthy (u_referredBy referrer) then
            let s1 = createHigherLevelReferral s now (the (u_referredBy referrer)) referredId
                       Level2 plat
            in case getUserById s1 (the (u_referredBy referrer)) of
                 None \<Rightarrow> s1
               | Some level2Referrer \<Rightarrow>
                   if truthy (u_referredBy level2Referrer) then
                     let isEligible = checkLevel3Eligibility rt s1 now (u_id level2Referrer)
                     in if isEligible
                        then createHigherLevelReferral s1 now (the (u_referredBy level2Referrer))
                               referredId Level3 plat
                        else s1
                   else s1
          else s)"

definition processReferral ::
  "runtime \<Rightarrow> store \<Rightarrow> time \<Rightarrow> userid \<Rightarrow> userid \<Rightarrow> platform
     \<Rightarrow> ReferralResult \<times> store" where
  "processReferral rt s now referrerId referredId plat =
     (case getUserById s referrerId of
        None \<Rightarrow> (ReferralFailure ReferrerNotFound, s)
      | Some referrer \<Rightarrow>
          (case getReferralByUsers s referrerId referredId of
             Some existingReferral \<Rightarrow> (ReferralFailure ReferralAlreadyExists, s)
           | None \<Rightarrow>
               let (referralId, s1) = uuidv4 s;
                   referralData = createReferralData now referralId referrerId referredId 1
                                    (REFERRAL_BONUSES Level1) Pending (u_referralCode referrer) plat;
                   s2 = s1\<lparr>referrals := referrals s1 @ [referralData]\<rparr>;
                   (bonusResult, s3) = processReferralBonus s2 now referrerId referredId 1
                                         (REFERRAL_BONUSES Level1)
               in (case bonusResult of
                     Success transactionId newBalance \<Rightarrow>
                       (let s4 = s3\<lparr>referrals :=
                                     completeReferralDoc now referralId transactionId (referrals s3)\<rparr>;
                            s5 = processHigherLevelReferrals rt s4 now referrerId referredId plat
                        in (ReferralSuccess referralId True, s5))
                   | Failure e \<Rightarrow> (ReferralSuccess referralId False, s3))))"

section \<open>Vocabulary of the properties\<close>

text \<open>
  The fee of a tip of a given gross amount, as \<open>processTip\<close> computes it.
\<close>

definition tipFee :: "int \<Rightarrow> int" where
  "tipFee amount = Math_round (of_int amount * (2 / 100))"

text \<open>
  The balance of a user's wallet as \<open>getWalletByUserId\<close> finds it; a user with no
  wallet document holds nothing.
\<close>

definition balanceOf :: "store \<Rightarrow> userid \<Rightarrow> int" where
  "balanceOf s uid = (case getWalletByUserId s uid of None \<Rightarrow> 0 | Some w \<Rightarrow> balance w)"

text \<open>
  Document ids are the keys of the \<open>wallets\<close> collection, so no two wallet documents share
  one, and an id still to be drawn is the id of no document.
\<close>

definition wellFormed :: "store \<Rightarrow> bool" where
  "wellFormed s = (distinct (map wid (wallets s)) \<and> list_all (\<lambda>w. wid w < nextId s) (wallets s))"

text \<open>
  Sequences of wallet operations: each entry is a call of one of the four mutating
  operations of the wallet service together with the clock reading of the call.
\<close>

datatype wallet_op =
    CreditOp userid int string "string option" "metadata option"
  | ReferralBonusOp userid userid nat int
  | DebitOp userid int string int "string option" "metadata option"
  | TipOp "tip_write option" userid userid int platform "string option" bool

fun applyOp :: "store \<Rightarrow> time \<times> wallet_op \<Rightarrow> store" where
  "applyOp s (now, CreditOp uid amount d r m) = snd (creditWallet s now uid amount d r m)"
| "applyOp s (now, ReferralBonusOp referrer referred level amount) =
     snd (processReferralBonus s now referrer referred level amount)"
| "applyOp s (now, DebitOp uid amount d fee r m) = snd (debitWallet s now uid amount d fee r m)"
| "applyOp s (now, TipOp fault sender recipient amount plat d anon) =
     snd (processTip s now fault sender recipient amount plat d anon)"

definition runOps :: "store \<Rightarrow> (time \<times> wallet_op) list \<Rightarrow> store" where
  "runOps s ops = foldl applyOp s ops"

definition balancesNonneg :: "store \<Rightarrow> bool" where
  "balancesNonneg s = list_all (\<lambda>w. 0 \<le> balance w) (wallets s)"

text \<open>
  The operations whose amount enters a balance as an addition carry a non-negative amount.
  A debit is guarded by its balance check and needs no such condition.
\<close>

fun nonnegAmount :: "wallet_op \<Rightarrow> bool" where
  "nonnegAmount (CreditOp uid amount d r m) = (0 \<le> amount)"
| "nonnegAmount (ReferralBonusOp referrer referred level amount) = (0 \<le> amount)"
| "nonnegAmount (DebitOp uid amount d fee r m) = True"
| "nonnegAmount (TipOp fault sender recipient amount plat d anon) = (0 \<le> amount)"

text \<open>
  The sum the daily check of \<open>validateTransactionLimits\<close> describes: absolute amounts of
  the transactions of the compared type created at or after \<open>today\<close>.
\<close>

definition todayTotal :: "time \<Rightarrow> limit_type \<Rightarrow> ITransaction list \<Rightarrow> int" where
  "todayTotal today ty txs =
     sum_list (map (\<lambda>t. \<bar>t_amount t\<bar>)
       (filter (\<lambda>t. today \<le> t_createdAt t \<and> t_type t = limitTxType ty) txs))"

text \<open>
  A referral record seen as (referrer, referred, level), and the records a call added to
  the collection.
\<close>

definition refKey :: "IReferral \<Rightarrow> userid \<times> userid \<times> nat" where
  "refKey r = (r_referrerId r, r_referredId r, r_level r)"





text \<open>
  What a store holds, read off the collections themselves: some referral record of a
  (referrer, referred) pair, at whatever level, and some wallet document of a user.
\<close>

definition pairRecorded :: "store \<Rightarrow> userid \<Rightarrow> userid \<Rightarrow> bool" where
  "pairRecorded s referrerId referredId =
     list_ex (\<lambda>r. r_referrerId r = referrerId \<and> r_referredId r = referredId) (referrals s)"

definition hasWallet :: "store \<Rightarrow> userid \<Rightarrow> bool" where
  "hasWallet s uid = list_ex (\<lambda>w. userId w = uid) (wallets s)"

text \<open>The keys the cascade above level 1 adds for a given \<open>users\<close> collection.\<close>

definition higherKeys ::
  "runtime \<Rightarrow> (userid \<rightharpoonup> IUser) \<Rightarrow> time \<Rightarrow> userid \<Rightarrow> userid \<Rightarrow> (userid \<times> userid \<times> nat) list" where
  "higherKeys rt us now referrerId referredId =
     (case us referrerId of
        None \<Rightarrow> []
      | Some u1 \<Rightarrow>
          if truthy (u_referredBy u1) then
            (the (u_referredBy u1), referredId, 2) #
            (case us (the (u_referredBy u1)) of
               None \<Rightarrow> []
             | Some u2 \<Rightarrow>
                 if truthy (u_referredBy u2)
                    \<and> (case us (u_id u2) of
                          None \<Rightarrow> False
                        | Some u \<Rightarrow>
                            timestampLe rt (u_createdAt u) (setDateBack rt now MIN_ACTIVE_DAYS))
                 then [(the (u_referredBy u2), referredId, 3)]
                 else [])
          else [])"

subsection \<open>Sample data\<close>

definition sampleWallet :: "docid \<Rightarrow> userid \<Rightarrow> int \<Rightarrow> IWallet" where
  "sampleWallet i uid b = (createWalletData 0 i uid ''NGN'')\<lparr>balance := b\<rparr>"

definition sampleStore :: "IWallet list \<Rightarrow> store" where
  "sampleStore ws =
     \<lparr>wallets = ws, transactions = [], tips = [], referrals = [], users = Map.empty, nextId = 100\<rparr>"

definition twoWallets :: store where
  "twoWallets = sampleStore [sampleWallet 11 ''alice'' 1000, sampleWallet 12 ''bob'' 0]"

definition sampleTransaction :: "tx_type \<Rightarrow> int \<Rightarrow> time \<Rightarrow> ITransaction" where
  "sampleTransaction ty amount created =
     createTransactionData created
       \<lparr>i_id = 7, i_userId = ''alice'', i_type = ty, i_amount = amount, i_description = [],
        i_status = Completed, i_reference = None, i_recipientId = None, i_senderId = None,
        i_currency = ''NGN'', i_fee = Some 0, i_netAmount = amount, i_metadata = None\<rparr>"

definition sampleUser :: "userid \<Rightarrow> firestore_timestamp \<Rightarrow> userid option \<Rightarrow> IUser" where
  "sampleUser uid created by =
     \<lparr>u_id = uid, u_createdAt = created, u_referralCode = ''CODE'', u_referredBy = by\<rparr>"

text \<open>
  A chain of referrers r1, r2, r3 whose accounts were created at second 1 700 000 000
  (November 2023). The document of r2 carries \<open>r2id\<close> in its \<open>id\<close> field.
\<close>

definition chainUsers :: "userid \<Rightarrow> userid \<rightharpoonup> IUser" where
  "chainUsers r2id =
     [''r1'' \<mapsto> sampleUser ''r1'' (Timestamp 1700000000 0) (Some ''r2''),
      ''r2'' \<mapsto> sampleUser r2id (Timestamp 1700000000 0) (Some ''r3''),
      ''r3'' \<mapsto> sampleUser ''r3'' (Timestamp 1700000000 0) None]"

definition sampleReferral :: "docid \<Rightarrow> userid \<Rightarrow> userid \<Rightarrow> IReferral" where
  "sampleReferral i referrerId referredId =
     createReferralData 0 i referrerId referredId 1 100 Completed ''CODE'' MobileApp"

definition chainStore :: "userid \<Rightarrow> IWallet list \<Rightarrow> IReferral list \<Rightarrow> store" where
  "chainStore r2id ws rs = (sampleStore ws)\<lparr>users := chainUsers r2id, referrals := rs\<rparr>"

text \<open>
  A runtime for the examples: a time zone whose offset does not change in the thirty days,
  and the comparison as a Firestore client with \<open>Timestamp.valueOf\<close> decides it. The operator
  \<open><=\<close> takes the primitive of the Timestamp, the string of its seconds counted from year 1
  and its nanoseconds, and compares it as a number with the milliseconds of the Date.
\<close>

definition coercedLe :: "firestore_timestamp \<Rightarrow> time \<Rightarrow> bool" where
  "coercedLe ts d =
     (case ts of
        Timestamp seconds nanoseconds \<Rightarrow>
          of_int (seconds + 62135596800) + of_int nanoseconds / 1000000000 \<le> (of_int d :: rat))"

definition sampleRuntime :: runtime where
  "sampleRuntime = \<lparr>setDateBack = (\<lambda>d n. d - n * 86400000), timestampLe = coercedLe\<rparr>"

section \<open>Properties\<close>

subsection \<open>Lists and wallet lookups\<close>

lemma find_in_set: "find P xs = Some x \<Longrightarrow> x \<in> set xs \<and> P x"
  by (induction xs) (auto split: if_splits)

lemma find_append_Some: "find P xs = Some x \<Longrightarrow> find P (xs @ ys) = Some x"
  by (induction xs) (auto split: if_splits)

lemma find_append_None: "find P xs = None \<Longrightarrow> find P (xs @ ys) = find P ys"
  by (induction xs) (auto split: if_splits)

lemma find_updateWalletDoc_gen:
  assumes "find (\<lambda>w. userId w = u) ws = Some w" and "\<And>x. userId (f x) = userId x"
  shows "find (\<lambda>w. userId w = u) (updateWalletDoc i f ws) = Some (if wid w = i then f w else w)"
  using assms unfolding updateWalletDoc_def
  by (induction ws) (auto split: if_splits)

lemma distinct_wid_eq:
  "distinct (map wid ws) \<Longrightarrow> a \<in> set ws \<Longrightarrow> b \<in> set ws \<Longrightarrow> wid a = wid b \<Longrightarrow> a = b"
  by (auto simp: distinct_map inj_on_def)

lemma list_all_updateWalletDoc:
  "list_all P ws \<Longrightarrow> (\<And>x. x \<in> set ws \<Longrightarrow> P (f x)) \<Longrightarrow> list_all P (updateWalletDoc i f ws)"
  by (auto simp: updateWalletDoc_def list_all_iff)

lemma drop_length_map_append: "drop (length xs) (map f xs @ ys) = ys"
  by simp

lemma getWallet_after_update:
  assumes "getWalletByUserId s uid = Some w" and "\<And>x. userId (f x) = userId x"
  shows "getWalletByUserId
           (s\<lparr>wallets := updateWalletDoc (wid w) f (wallets s), nextId := n, transactions := ts\<rparr>) uid
         = Some (f w)"
  using find_updateWalletDoc_gen [OF assms(1) [unfolded getWalletByUserId_def], of f "wid w"] assms(2)
  by (simp add: getWalletByUserId_def)

lemma getWallet_single_update:
  assumes "getWalletByUserId s uid = Some w" and "\<And>x. userId (f x) = userId x"
  shows "find (\<lambda>w. userId w = uid) (updateWalletDoc (wid w) f (wallets s @ extra)) = Some (f w)"
  using find_updateWalletDoc_gen [OF find_append_Some [OF assms(1) [unfolded getWalletByUserId_def], of extra], of f "wid w"] assms(2)
  by simp

lemma createWallet_eq:
  "createWallet s now uid cur =
     (createWalletData now (nextId s) uid cur,
      s\<lparr>nextId := Suc (nextId s), wallets := wallets s @ [createWalletData now (nextId s) uid cur]\<rparr>)"
  by (simp add: createWallet_def uuidv4_def Let_def)

lemma creditWallet_found:
  assumes "getWalletByUserId s uid = Some w"
  shows "creditWallet s now uid amount d r m =
           (Success (nextId s) (balance w + amount),
            s\<lparr>wallets := updateWalletDoc (wid w)
                  (\<lambda>x. x\<lparr>balance := balance w + amount, totalDeposits := totalDeposits w + amount,
                          lastTransactionAt := Some now, updatedAt := now\<rparr>) (wallets s),
               nextId := Suc (nextId s),
               transactions := transactions s @
                 [createTransactionData now
                    \<lparr>i_id = nextId s, i_userId = uid, i_type = Deposit, i_amount = amount,
                     i_description = d, i_status = Completed, i_reference = r,
                     i_recipientId = None, i_senderId = None, i_currency = currency w,
                     i_fee = Some 0, i_netAmount = amount, i_metadata = m\<rparr>]\<rparr>)"
  using assms by (simp add: creditWallet_def Let_def uuidv4_def updateWalletData_def)

lemma debitWallet_found:
  assumes "getWalletByUserId s uid = Some w" and "amount \<le> balance w"
  shows "debitWallet s now uid amount d fee r m =
           (Success (nextId s) (balance w - amount),
            s\<lparr>wallets := updateWalletDoc (wid w)
                  (\<lambda>x. x\<lparr>balance := balance w - amount, totalWithdrawals := totalWithdrawals w + amount,
                          lastTransactionAt := Some now, updatedAt := now\<rparr>) (wallets s),
               nextId := Suc (nextId s),
               transactions := transactions s @
                 [createTransactionData now
                    \<lparr>i_id = nextId s, i_userId = uid, i_type = Withdrawal, i_amount = - amount,
                     i_description = d, i_status = Completed, i_reference = r,
                     i_recipientId = None, i_senderId = None, i_currency = currency w,
                     i_fee = Some fee, i_netAmount = amount - fee, i_metadata = m\<rparr>]\<rparr>)"
  using assms by (simp add: debitWallet_def Let_def uuidv4_def updateWalletData_def)

lemma processReferralBonus_found:
  assumes "getWalletByUserId s uid = Some w"
  shows "processReferralBonus s now uid referred level amount =
           (Success (nextId s) (balance w + amount),
            s\<lparr>wallets := updateWalletDoc (wid w)
                  (\<lambda>x. x\<lparr>balance := balance w + amount,
                          totalReferralEarnings := totalReferralEarnings w + amount,
                          lastTransactionAt := Some now, updatedAt := now\<rparr>) (wallets s),
               nextId := Suc (nextId s),
               transactions := transactions s @
                 [createTransactionData now
                    \<lparr>i_id = nextId s, i_userId = uid, i_type = ReferralBonus, i_amount = amount,
                     i_description = ''Referral bonus for level '' @ string_of_nat level @ '' referral'',
                     i_status = Completed, i_reference = None,
                     i_recipientId = None, i_senderId = None, i_currency = currency w,
                     i_fee = Some 0, i_netAmount = amount,
                     i_metadata = Some \<lparr>m_tipId = None, m_platform = None, m_isAnonymous = None,
                                     m_referredId = Some referred, m_level = Some level,
                                     m_referrerId = Some uid\<rparr>\<rparr>]\<rparr>)"
  using assms by (simp add: processReferralBonus_def Let_def uuidv4_def updateWalletData_def)

subsection \<open>The tip fee\<close>

lemma Math_round_tip: "Math_round (of_int a * (2 / 100)) = (a + 25) div 50"
proof -
  have "(of_int a * (2 / 100) + 1 / 2 :: rat) = of_int (a + 25) / of_int 50"
    by (simp add: field_simps)
  then show ?thesis
    unfolding Math_round_def by (simp only: floor_divide_of_int_eq)
qed

lemma Math_round_tip': "Math_round (of_int a / 50) = (a + 25) div 50"
  using Math_round_tip [of a] by simp

lemma floor_rat_numeral_div: "\<lfloor>numeral a / numeral b :: rat\<rfloor> = numeral a div numeral b"
  using floor_divide_of_int_eq [of "numeral a" "numeral b", where ?'a = rat] by simp

lemma tipFee_eq: "tipFee G = (G + 25) div 50"
  unfolding tipFee_def by (rule Math_round_tip)

lemma tip_net_nonneg: "0 \<le> G \<Longrightarrow> (G + 25) div 50 \<le> (G::int)"
  by linarith

lemmas sample_defs = twoWallets_def sampleStore_def sampleWallet_def createWalletData_def

lemmas eval_defs = processTip_def processTip_settle_def getWalletByUserId_def Let_def uuidv4_def
  updateWalletData_def updateWalletDoc_def Math_round_def floor_rat_numeral_div
  createTransactionData_def
  creditWallet_def debitWallet_def processReferralBonus_def balanceOf_def createWallet_def

subsection \<open>Self-tips\<close>

text \<open>
  Claim C9. A call of \<open>processTip\<close> whose sender and recipient are the same user fails with
  the error "Cannot tip yourself" and returns the store it was given: no wallet balance
  changes and no Tip or Transaction record is written, whatever the amount and whichever
  store write would have failed.
\<close>

theorem processTip_self_tip_rejected:
  "processTip s now fault uid uid amount plat description isAnonymous
     = (Failure CannotTipYourself, s)"
  by (simp add: processTip_def)

subsection \<open>Credit and debit without a positivity check\<close>

text \<open>
  Claim C10, as amended. Neither \<open>creditWallet\<close> nor \<open>debitWallet\<close> looks at the sign of the
  amount. Without a wallet both fail with "Wallet not found" and leave the store alone. With
  a wallet, \<open>creditWallet\<close> succeeds for every amount (zero and negative included) and the
  balance becomes the old balance plus the amount; \<open>debitWallet\<close> succeeds exactly when the
  amount is at most the balance, the balance becoming the old balance minus the amount, and
  fails with "Insufficient balance", store unchanged, otherwise. So a negative debit
  succeeds, and raises the balance, on every wallet whose balance is at least that amount,
  in particular on every wallet with a non-negative balance.
\<close>

theorem credit_debit_no_positivity_check:
  "(getWalletByUserId s uid = None \<longrightarrow>
      creditWallet s now uid amount d r m = (Failure WalletNotFound, s)
      \<and> debitWallet s now uid amount d fee r m = (Failure WalletNotFound, s))
   \<and> (\<forall>w. getWalletByUserId s uid = Some w \<longrightarrow>
        (\<exists>s'. creditWallet s now uid amount d r m = (Success (nextId s) (balance w + amount), s')
              \<and> map_option balance (getWalletByUserId s' uid) = Some (balance w + amount))
        \<and> (amount \<le> balance w \<longrightarrow>
             (\<exists>s'. debitWallet s now uid amount d fee r m
                     = (Success (nextId s) (balance w - amount), s')
                \<and> map_option balance (getWalletByUserId s' uid) = Some (balance w - amount)))
        \<and> (balance w < amount \<longrightarrow>
             debitWallet s now uid amount d fee r m = (Failure InsufficientBalance, s)))"
proof (intro conjI impI allI)
  assume "getWalletByUserId s uid = None"
  then show "creditWallet s now uid amount d r m = (Failure WalletNotFound, s)"
    and "debitWallet s now uid amount d fee r m = (Failure WalletNotFound, s)"
    by (simp_all add: creditWallet_def debitWallet_def)
next
  fix w assume w: "getWalletByUserId s uid = Some w"
  show "\<exists>s'. creditWallet s now uid amount d r m = (Success (nextId s) (balance w + amount), s')
            \<and> map_option balance (getWalletByUserId s' uid) = Some (balance w + amount)"
    by (simp add: creditWallet_found [OF w] getWallet_after_update [OF w])
  show "\<exists>s'. debitWallet s now uid amount d fee r m = (Success (nextId s) (balance w - amount), s')
               \<and> map_option balance (getWalletByUserId s' uid) = Some (balance w - amount)"
    if "amount \<le> balance w"
    by (simp add: debitWallet_found [OF w that] getWallet_after_update [OF w])
  show "debitWallet s now uid amount d fee r m = (Failure InsufficientBalance, s)"
    if "balance w < amount"
    using w that by (simp add: debitWallet_def)
qed

text \<open>
  The theorem at a wallet holding 1000: a credit of -30, a debit of -30, a debit of 2000,
  and a credit to a user without a wallet.
\<close>

theorem credit_debit_no_positivity_check_witness:
  "getWalletByUserId twoWallets ''alice'' = Some (sampleWallet 11 ''alice'' 1000)
   \<and> fst (creditWallet twoWallets 5 ''alice'' (- 30) ''correction'' None None) = Success 100 970
   \<and> (- 30) \<le> balance (sampleWallet 11 ''alice'' 1000)
   \<and> fst (debitWallet twoWallets 5 ''alice'' (- 30) ''correction'' 0 None None) = Success 100 1030
   \<and> balance (sampleWallet 11 ''alice'' 1000) < 2000
   \<and> fst (debitWallet twoWallets 5 ''alice'' 2000 ''too much'' 0 None None)
        = Failure InsufficientBalance
   \<and> getWalletByUserId twoWallets ''carol'' = None
   \<and> fst (creditWallet twoWallets 5 ''carol'' 10 ''gift'' None None) = Failure WalletNotFound"
proof -
  have w: "getWalletByUserId twoWallets ''alice'' = Some (sampleWallet 11 ''alice'' 1000)"
    and n: "getWalletByUserId twoWallets ''carol'' = None"
    by (simp_all add: getWalletByUserId_def sample_defs)
  have b: "balance (sampleWallet 11 ''alice'' 1000) = 1000" and i: "nextId twoWallets = 100"
    by (simp_all add: sample_defs)
  note A = credit_debit_no_positivity_check
             [of twoWallets "''alice''" 5 "- 30" "''correction''" None None 0,
              THEN conjunct2, rule_format, OF w]
  note B = credit_debit_no_positivity_check
             [of twoWallets "''alice''" 5 2000 "''too much''" None None 0,
              THEN conjunct2, rule_format, OF w]
  note C = credit_debit_no_positivity_check
             [of twoWallets "''carol''" 5 10 "''gift''" None None 0,
              THEN conjunct1, rule_format, OF n]
  have 1: "fst (creditWallet twoWallets 5 ''alice'' (- 30) ''correction'' None None) = Success 100 970"
    using A [THEN conjunct1] unfolding b i by auto
  have 2: "fst (debitWallet twoWallets 5 ''alice'' (- 30) ''correction'' 0 None None) = Success 100 1030"
    using A [THEN conjunct2, THEN conjunct1] unfolding b i by auto
  have 3: "fst (debitWallet twoWallets 5 ''alice'' 2000 ''too much'' 0 None None)
             = Failure InsufficientBalance"
    using B [THEN conjunct2, THEN conjunct2] unfolding b by simp
  have 4: "fst (creditWallet twoWallets 5 ''carol'' 10 ''gift'' None None) = Failure WalletNotFound"
    using C [THEN conjunct1] by simp
  show ?thesis using w n 1 2 3 4 by (simp add: b)
qed

text \<open>
  A negative debit does not always succeed: on a wallet whose balance is -100 a debit of
  -50 is refused, since -100 < -50.
\<close>

theorem debit_negative_amount_counterexample:
  "getWalletByUserId (sampleStore [sampleWallet 11 ''alice'' (- 100)]) ''alice''
     = Some (sampleWallet 11 ''alice'' (- 100))
   \<and> debitWallet (sampleStore [sampleWallet 11 ''alice'' (- 100)]) 0 ''alice'' (- 50) ''refund'' 0 None None
     = (Failure InsufficientBalance, sampleStore [sampleWallet 11 ''alice'' (- 100)])"
  by (simp add: debitWallet_def getWalletByUserId_def sample_defs)

subsection \<open>Running totals and transaction types of credits\<close>

lemma processTip_settle_Success:
  assumes "processTip_settle s now fault sw rw sid rid G plat desc anon = (Success tipId nb, s')"
  shows "G \<le> balance sw \<and> tipId = nextId s \<and> nb = balance sw - G \<and>
         wallets s' = updateWalletDoc (wid rw)
            (\<lambda>w. w\<lparr>balance := balance rw + (G - tipFee G),
                    totalTipsReceived := totalTipsReceived rw + (G - tipFee G),
                    lastTransactionAt := Some now, updatedAt := now\<rparr>)
            (updateWalletDoc (wid sw)
               (\<lambda>w. w\<lparr>balance := balance sw - G,
                       totalTipsSent := totalTipsSent sw + G,
                       lastTransactionAt := Some now, updatedAt := now\<rparr>) (wallets s)) \<and>
         map (\<lambda>t. (tip_senderId t, tip_recipientId t, tip_amount t, tip_fee t, tip_netAmount t, tip_status t))
             (tips s') =
         map (\<lambda>t. (tip_senderId t, tip_recipientId t, tip_amount t, tip_fee t, tip_netAmount t, tip_status t))
             (tips s) @ [(sid, rid, G, tipFee G, G - tipFee G, Completed)] \<and>
         map (\<lambda>t. (t_type t, t_userId t, t_amount t, t_status t)) (transactions s') =
         map (\<lambda>t. (t_type t, t_userId t, t_amount t, t_status t)) (transactions s) @
           (if 0 < tipFee G then [(Fee, sid, - tipFee G, Completed)] else []) @
           [(TipSent, sid, - G, Completed), (TipReceived, rid, G - tipFee G, Completed)]"
  using assms
  by (auto simp: processTip_settle_def Let_def uuidv4_def updateWalletData_def tipFee_def
        createTransactionData_def split: if_splits)

lemma balanceOf_settled:
  assumes ws: "wallets s' = updateWalletDoc (wid rw) g (updateWalletDoc (wid sw) f (wallets s))"
    and f: "\<And>x. userId (f x) = userId x" "\<And>x. wid (f x) = wid x"
    and g: "\<And>x. userId (g x) = userId x"
    and sw: "getWalletByUserId s sid = Some sw" and rw: "getWalletByUserId s rid = Some rw"
    and ne: "wid sw \<noteq> wid rw"
  shows "getWalletByUserId s' sid = Some (f sw) \<and> getWalletByUserId s' rid = Some (g rw)"
proof -
  have 1: "find (\<lambda>w. userId w = sid) (updateWalletDoc (wid sw) f (wallets s)) = Some (f sw)"
    using find_updateWalletDoc_gen [OF sw [unfolded getWalletByUserId_def], of f "wid sw"] f by simp
  have 2: "find (\<lambda>w. userId w = rid) (updateWalletDoc (wid sw) f (wallets s)) = Some rw"
    using find_updateWalletDoc_gen [OF rw [unfolded getWalletByUserId_def], of f "wid sw"] f ne by simp
  have "find (\<lambda>w. userId w = sid) (wallets s') = Some (f sw)"
    unfolding ws using find_updateWalletDoc_gen [OF 1, of g "wid rw"] g f ne by simp
  moreover have "find (\<lambda>w. userId w = rid) (wallets s') = Some (g rw)"
    unfolding ws using find_updateWalletDoc_gen [OF 2, of g "wid rw"] g by simp
  ultimately show ?thesis by (simp add: getWalletByUserId_def)
qed

lemma processTip_Success_existing:
  assumes wf: "wellFormed s"
    and ok: "processTip s now fault senderId recipientId G plat desc anon = (Success tipId nb, s')"
    and rw: "getWalletByUserId s recipientId = Some rw"
  shows "getWalletByUserId s' recipientId =
           Some (rw\<lparr>balance := balance rw + (G - tipFee G),
                     totalTipsReceived := totalTipsReceived rw + (G - tipFee G),
                     lastTransactionAt := Some now, updatedAt := now\<rparr>)
       \<and> map (\<lambda>t. (t_type t, t_userId t, t_amount t, t_status t)) (transactions s') =
           map (\<lambda>t. (t_type t, t_userId t, t_amount t, t_status t)) (transactions s) @
             (if 0 < tipFee G then [(Fee, senderId, - tipFee G, Completed)] else []) @
             [(TipSent, senderId, - G, Completed), (TipReceived, recipientId, G - tipFee G, Completed)]"
proof -
  have ne: "senderId \<noteq> recipientId"
    using ok by (auto simp: processTip_def)
  obtain sw where sw: "getWalletByUserId s senderId = Some sw"
    using ok ne by (cases "getWalletByUserId s senderId") (auto simp: processTip_def)
  have swin: "sw \<in> set (wallets s)" "userId sw = senderId"
    using find_in_set [OF sw [unfolded getWalletByUserId_def]] by auto
  have rwin: "rw \<in> set (wallets s)" "userId rw = recipientId"
    using find_in_set [OF rw [unfolded getWalletByUserId_def]] by auto
  let ?f = "\<lambda>w. w\<lparr>balance := balance sw - G, totalTipsSent := totalTipsSent sw + G,
                    lastTransactionAt := Some now, updatedAt := now\<rparr>"
  let ?g = "\<lambda>w. w\<lparr>balance := balance rw + (G - tipFee G),
                    totalTipsReceived := totalTipsReceived rw + (G - tipFee G),
                    lastTransactionAt := Some now, updatedAt := now\<rparr>"
  have widne: "wid sw \<noteq> wid rw"
    using distinct_wid_eq [OF _ swin(1) rwin(1)] wf swin rwin ne by (auto simp: wellFormed_def)
  have settle: "processTip_settle s now fault sw rw senderId recipientId G plat desc anon
                  = (Success tipId nb, s')"
    using ok ne sw rw by (simp add: processTip_def)
  note S = processTip_settle_Success [OF settle]
  have "getWalletByUserId s' senderId = Some (?f sw) \<and> getWalletByUserId s' recipientId = Some (?g rw)"
    by (rule balanceOf_settled [where s = s, OF _ _ _ _ sw rw widne]) (use S in simp_all)
  then show ?thesis using S by simp
qed

text \<open>
  Claim C7, as amended. On an existing wallet, \<open>creditWallet\<close> adds the amount to the
  balance and to \<open>totalDeposits\<close> and writes exactly one completed transaction of type
  deposit, whatever its description says; \<open>processReferralBonus\<close> adds the amount to the
  balance and to \<open>totalReferralEarnings\<close> and writes exactly one completed transaction of
  type referral_bonus; a successful \<open>processTip\<close> adds the net amount to the recipient's
  balance and \<open>totalTipsReceived\<close> and writes exactly one completed tip_received
  transaction for the recipient. The field and the type are fixed by the operation called,
  not by the reason passed to it.
\<close>

theorem credit_running_totals:
  assumes w: "getWalletByUserId s uid = Some w"
  shows "(\<exists>s'. creditWallet s now uid amount description reference md
                 = (Success (nextId s) (balance w + amount), s')
            \<and> getWalletByUserId s' uid =
                Some (w\<lparr>balance := balance w + amount, totalDeposits := totalDeposits w + amount,
                        lastTransactionAt := Some now, updatedAt := now\<rparr>)
            \<and> map (\<lambda>t. (t_type t, t_userId t, t_amount t, t_status t)) (transactions s') =
                map (\<lambda>t. (t_type t, t_userId t, t_amount t, t_status t)) (transactions s) @
                  [(Deposit, uid, amount, Completed)])
       \<and> (\<exists>s'. processReferralBonus s now uid referred level amount
                 = (Success (nextId s) (balance w + amount), s')
            \<and> getWalletByUserId s' uid =
                Some (w\<lparr>balance := balance w + amount,
                        totalReferralEarnings := totalReferralEarnings w + amount,
                        lastTransactionAt := Some now, updatedAt := now\<rparr>)
            \<and> map (\<lambda>t. (t_type t, t_userId t, t_amount t, t_status t)) (transactions s') =
                map (\<lambda>t. (t_type t, t_userId t, t_amount t, t_status t)) (transactions s) @
                  [(ReferralBonus, uid, amount, Completed)])
       \<and> (\<forall>fault sender plat desc anon tipId nb s'.
            wellFormed s
            \<and> processTip s now fault sender uid amount plat desc anon = (Success tipId nb, s')
            \<longrightarrow>
              getWalletByUserId s' uid =
                Some (w\<lparr>balance := balance w + (amount - tipFee amount),
                        totalTipsReceived := totalTipsReceived w + (amount - tipFee amount),
                        lastTransactionAt := Some now, updatedAt := now\<rparr>)
              \<and> filter (\<lambda>v. fst v = TipReceived)
                   (drop (length (transactions s))
                      (map (\<lambda>t. (t_type t, t_userId t, t_amount t, t_status t)) (transactions s')))
                  = [(TipReceived, uid, amount - tipFee amount, Completed)])"
proof (intro conjI allI impI)
  show "\<exists>s'. creditWallet s now uid amount description reference md
                 = (Success (nextId s) (balance w + amount), s')
            \<and> getWalletByUserId s' uid =
                Some (w\<lparr>balance := balance w + amount, totalDeposits := totalDeposits w + amount,
                        lastTransactionAt := Some now, updatedAt := now\<rparr>)
            \<and> map (\<lambda>t. (t_type t, t_userId t, t_amount t, t_status t)) (transactions s') =
                map (\<lambda>t. (t_type t, t_userId t, t_amount t, t_status t)) (transactions s) @
                  [(Deposit, uid, amount, Completed)]"
    by (simp add: creditWallet_found [OF w] getWallet_after_update [OF w] createTransactionData_def)
next
  show "\<exists>s'. processReferralBonus s now uid referred level amount
                 = (Success (nextId s) (balance w + amount), s')
            \<and> getWalletByUserId s' uid =
                Some (w\<lparr>balance := balance w + amount,
                        totalReferralEarnings := totalReferralEarnings w + amount,
                        lastTransactionAt := Some now, updatedAt := now\<rparr>)
            \<and> map (\<lambda>t. (t_type t, t_userId t, t_amount t, t_status t)) (transactions s') =
                map (\<lambda>t. (t_type t, t_userId t, t_amount t, t_status t)) (transactions s) @
                  [(ReferralBonus, uid, amount, Completed)]"
    by (simp add: processReferralBonus_found [OF w] getWallet_after_update [OF w]
          createTransactionData_def)
next
  fix fault sender plat desc anon tipId nb s'
  assume "wellFormed s \<and> processTip s now fault sender uid amount plat desc anon = (Success tipId nb, s')"
  then have wf: "wellFormed s"
    and ok: "processTip s now fault sender uid amount plat desc anon = (Success tipId nb, s')"
    by simp_all
  note T = processTip_Success_existing [OF wf ok w]
  show "getWalletByUserId s' uid =
          Some (w\<lparr>balance := balance w + (amount - tipFee amount),
                  totalTipsReceived := totalTipsReceived w + (amount - tipFee amount),
                  lastTransactionAt := Some now, updatedAt := now\<rparr>)"
    using T by simp
  show "filter (\<lambda>v. fst v = TipReceived)
          (drop (length (transactions s))
             (map (\<lambda>t. (t_type t, t_userId t, t_amount t, t_status t)) (transactions s')))
        = [(TipReceived, uid, amount - tipFee amount, Completed)]"
    unfolding T [THEN conjunct2] drop_length_map_append by simp
qed

text \<open>
  The theorem at the wallet of bob: a deposit of 250, a level-1 bonus of 100 and a tip of
  500 from alice.
\<close>

theorem credit_running_totals_witness:
  "getWalletByUserId twoWallets ''bob'' = Some (sampleWallet 12 ''bob'' 0)
   \<and> fst (creditWallet twoWallets 3 ''bob'' 250 ''Wallet funding'' None None) = Success 100 250
   \<and> map_option totalDeposits
        (getWalletByUserId (snd (creditWallet twoWallets 3 ''bob'' 250 ''Wallet funding'' None None))
           ''bob'') = Some 250
   \<and> fst (processReferralBonus twoWallets 3 ''bob'' ''carol'' 1 100) = Success 100 100
   \<and> map_option totalReferralEarnings
        (getWalletByUserId (snd (processReferralBonus twoWallets 3 ''bob'' ''carol'' 1 100)) ''bob'')
       = Some 100
   \<and> wellFormed twoWallets
   \<and> fst (processTip twoWallets 3 None ''alice'' ''bob'' 500 MobileApp None False) = Success 100 500
   \<and> map_option totalTipsReceived
        (getWalletByUserId (snd (processTip twoWallets 3 None ''alice'' ''bob'' 500 MobileApp None False))
           ''bob'') = Some 490"
proof -
  let ?r = "processTip twoWallets 3 None ''alice'' ''bob'' 500 MobileApp None False"
  have w: "getWalletByUserId twoWallets ''bob'' = Some (sampleWallet 12 ''bob'' 0)"
    by (simp add: getWalletByUserId_def sample_defs)
  have wf: "wellFormed twoWallets"
    by (simp add: wellFormed_def sample_defs)
  have res: "fst ?r = Success 100 500"
    by (simp add: eval_defs sample_defs)
  then have ok: "?r = (Success 100 500, snd ?r)"
    by (metis prod.collapse)
  have v: "balance (sampleWallet 12 ''bob'' 0) = 0" "totalDeposits (sampleWallet 12 ''bob'' 0) = 0"
    "totalReferralEarnings (sampleWallet 12 ''bob'' 0) = 0"
    "totalTipsReceived (sampleWallet 12 ''bob'' 0) = 0" "nextId twoWallets = 100"
    "tipFee 500 = 10"
    by (simp_all add: sample_defs tipFee_eq)
  note A = credit_running_totals [OF w, of 3 250 "''Wallet funding''" None None "''carol''" 1]
  note B = credit_running_totals [OF w, of 3 100 "''x''" None None "''carol''" 1]
  note C = credit_running_totals [OF w, of 3 500 "''x''" None None "''carol''" 1,
             THEN conjunct2, THEN conjunct2, rule_format, of None "''alice''" MobileApp None False
               100 500 "snd ?r", OF conjI [OF wf ok], THEN conjunct1]
  have 1: "fst (creditWallet twoWallets 3 ''bob'' 250 ''Wallet funding'' None None) = Success 100 250"
    "map_option totalDeposits
        (getWalletByUserId (snd (creditWallet twoWallets 3 ''bob'' 250 ''Wallet funding'' None None))
           ''bob'') = Some 250"
    using A [THEN conjunct1] unfolding v by auto
  have 2: "fst (processReferralBonus twoWallets 3 ''bob'' ''carol'' 1 100) = Success 100 100"
    "map_option totalReferralEarnings
        (getWalletByUserId (snd (processReferralBonus twoWallets 3 ''bob'' ''carol'' 1 100)) ''bob'')
       = Some 100"
    using B [THEN conjunct2, THEN conjunct1] unfolding v by auto
  have 3: "map_option totalTipsReceived (getWalletByUserId (snd ?r) ''bob'') = Some 490"
    using C unfolding v by simp
  show ?thesis using w wf res 1 2 3 by simp
qed

text \<open>
  \<open>creditWallet\<close> called with the reason of a received tip, as the tip-link route calls
  it, or with the reason of a referral bonus, increments \<open>totalDeposits\<close> and writes a
  deposit: \<open>totalTipsReceived\<close> and \<open>totalReferralEarnings\<close> stay 0.
\<close>

theorem credit_reason_counterexample:
  "map_option totalTipsReceived
     (getWalletByUserId
        (snd (creditWallet twoWallets 0 ''bob'' 490 ''Tip received via link from Anonymous'' None None))
        ''bob'') = Some 0
   \<and> map_option totalDeposits
     (getWalletByUserId
        (snd (creditWallet twoWallets 0 ''bob'' 490 ''Tip received via link from Anonymous'' None None))
        ''bob'') = Some 490
   \<and> map t_type (transactions
        (snd (creditWallet twoWallets 0 ''bob'' 490 ''Tip received via link from Anonymous'' None None)))
     = [Deposit]
   \<and> map_option totalReferralEarnings
     (getWalletByUserId
        (snd (creditWallet twoWallets 0 ''bob'' 100 ''Referral bonus for level 1 referral'' None None))
        ''bob'') = Some 0
   \<and> map_option totalDeposits
     (getWalletByUserId
        (snd (creditWallet twoWallets 0 ''bob'' 100 ''Referral bonus for level 1 referral'' None None))
        ''bob'') = Some 100"
  by (simp add: eval_defs sample_defs)

subsection \<open>Well-formed stores\<close>

lemma map_wid_updateWalletDoc:
  "(\<And>x. wid (f x) = wid x) \<Longrightarrow> map wid (updateWalletDoc i f ws) = map wid ws"
  by (induction ws) (simp_all add: updateWalletDoc_def)

lemma wellFormed_ids:
  "wellFormed s \<longleftrightarrow>
     distinct (map wid (wallets s)) \<and> list_all (\<lambda>i. i < nextId s) (map wid (wallets s))"
  by (simp add: wellFormed_def list_all_iff)

lemma wellFormed_frame:
  assumes "wellFormed s" and "map wid (wallets s') = map wid (wallets s)" and "nextId s \<le> nextId s'"
  shows "wellFormed s'"
proof -
  have "list_all (\<lambda>i. i < nextId s) (map wid (wallets s))"
    using assms(1) unfolding wellFormed_ids by simp
  then have "list_all (\<lambda>i. i < nextId s') (map wid (wallets s))"
    using assms(3) unfolding list_all_iff by fastforce
  then show ?thesis
    using assms(1) unfolding wellFormed_ids assms(2) by simp
qed

lemma creditWallet_wellFormed:
  assumes "wellFormed s"
  shows "wellFormed (snd (creditWallet s now uid amount d r m))"
proof (cases "getWalletByUserId s uid")
  case None
  then show ?thesis using assms by (simp add: creditWallet_def)
next
  case (Some w)
  show ?thesis
    using assms
    by (rule wellFormed_frame)
       (simp_all add: creditWallet_found [OF Some] map_wid_updateWalletDoc)
qed

lemma processReferralBonus_wellFormed:
  assumes "wellFormed s"
  shows "wellFormed (snd (processReferralBonus s now uid referred level amount))"
proof (cases "getWalletByUserId s uid")
  case None
  then show ?thesis using assms by (simp add: processReferralBonus_def)
next
  case (Some w)
  show ?thesis
    using assms
    by (rule wellFormed_frame)
       (simp_all add: processReferralBonus_found [OF Some] map_wid_updateWalletDoc)
qed

lemma debitWallet_wellFormed:
  assumes "wellFormed s"
  shows "wellFormed (snd (debitWallet s now uid amount d fee r m))"
proof (cases "getWalletByUserId s uid")
  case None
  then show ?thesis using assms by (simp add: debitWallet_def)
next
  case (Some w)
  show ?thesis
  proof (cases "amount \<le> balance w")
    case True
    show ?thesis
      using assms
      by (rule wellFormed_frame)
         (simp_all add: debitWallet_found [OF Some True] map_wid_updateWalletDoc)
  next
    case False
    then show ?thesis using Some assms by (simp add: debitWallet_def)
  qed
qed

lemma processTip_settle_frame:
  "map wid (wallets (snd (processTip_settle s now fault sw rw sid rid G plat d anon)))
     = map wid (wallets s)
   \<and> nextId s \<le> nextId (snd (processTip_settle s now fault sw rw sid rid G plat d anon))"
proof -
  let ?f = "\<lambda>w. w\<lparr>balance := balance sw - G, totalTipsSent := totalTipsSent sw + G,
                    lastTransactionAt := Some now, updatedAt := now\<rparr>"
  let ?g = "\<lambda>w. w\<lparr>balance := balance rw + (G - (G + 25) div 50),
                    totalTipsReceived := totalTipsReceived rw + (G - (G + 25) div 50),
                    lastTransactionAt := Some now, updatedAt := now\<rparr>"
  let ?w1 = "updateWalletDoc (wid sw) ?f (wallets s)"
  let ?w2 = "updateWalletDoc (wid rw) ?g ?w1"
  have "wallets (snd (processTip_settle s now fault sw rw sid rid G plat d anon))
          \<in> {wallets s, ?w1, ?w2}"
    by (simp add: processTip_settle_def Let_def uuidv4_def updateWalletData_def Math_round_tip'
          split: sum.splits prod.splits)
  moreover have "map wid ?w1 = map wid (wallets s)" "map wid ?w2 = map wid (wallets s)"
    by (simp_all add: map_wid_updateWalletDoc)
  ultimately have 1: "map wid (wallets (snd (processTip_settle s now fault sw rw sid rid G plat d anon)))
     = map wid (wallets s)"
    by auto
  have "nextId (snd (processTip_settle s now fault sw rw sid rid G plat d anon))
          \<in> {nextId s, Suc (nextId s), Suc (Suc (Suc (nextId s))), Suc (Suc (Suc (Suc (nextId s))))}"
    by (simp add: processTip_settle_def Let_def uuidv4_def updateWalletData_def
          split: sum.splits prod.splits)
  then have 2: "nextId s \<le> nextId (snd (processTip_settle s now fault sw rw sid rid G plat d anon))"
    by auto
  show ?thesis using 1 2 by simp
qed

lemma processTip_wellFormed:
  assumes "wellFormed s"
  shows "wellFormed (snd (processTip s now fault sid rid G plat d anon))"
proof (cases "sid = rid \<or> getWalletByUserId s sid = None")
  case True
  then show ?thesis using assms by (auto simp: processTip_def)
next
  case False
  then obtain sw where sw: "sid \<noteq> rid" "getWalletByUserId s sid = Some sw" by auto
  show ?thesis
  proof (cases "getWalletByUserId s rid")
    case (Some rw)
    have "wellFormed (snd (processTip_settle s now fault sw rw sid rid G plat d anon))"
      using processTip_settle_frame [of s now fault sw rw sid rid G plat d anon]
      by (intro wellFormed_frame [OF assms]) simp_all
    then show ?thesis using sw Some by (simp add: processTip_def)
  next
    case None
    define nw where "nw = createWalletData now (nextId s) rid (currency sw)"
    define s0 where "s0 = s\<lparr>nextId := Suc (nextId s), wallets := wallets s @ [nw]\<rparr>"
    have "wid nw = nextId s"
      by (simp add: nw_def createWalletData_def)
    then have wf0: "wellFormed s0"
      using assms unfolding wellFormed_ids by (auto simp: s0_def list_all_iff)
    have a: "wellFormed (snd (processTip_settle s0 now fault sw nw sid rid G plat d anon))"
      using processTip_settle_frame [of s0 now fault sw nw sid rid G plat d anon]
      by (intro wellFormed_frame [OF wf0]) simp_all
    have b: "wellFormed (snd (uuidv4 s))"
      by (intro wellFormed_frame [OF assms]) (simp_all add: uuidv4_def)
    show ?thesis
    proof (cases "fault = Some CreateRecipientWallet")
      case True
      then show ?thesis using sw None b by (simp add: processTip_def)
    next
      case False
      then show ?thesis
        using sw None a by (simp add: processTip_def createWallet_eq s0_def nw_def)
    qed
  qed
qed

text \<open>
  Every sequence of wallet operations keeps a store well-formed: an update keeps the ids of
  the wallet documents, and a wallet created for a recipient takes the id just drawn.
\<close>

theorem wellFormed_runOps:
  "wellFormed s \<Longrightarrow> wellFormed (runOps s ops)"
  unfolding runOps_def
proof (induction ops arbitrary: s)
  case Nil
  then show ?case by simp
next
  case (Cons op ops)
  obtain now w where op: "op = (now, w)" by (cases op)
  have "wellFormed (applyOp s op)"
    unfolding op using Cons.prems
    by (cases w)
       (simp_all add: creditWallet_wellFormed processReferralBonus_wellFormed
          debitWallet_wellFormed processTip_wellFormed)
  then show ?case using Cons.IH by simp
qed

subsection \<open>Conservation of a tip\<close>

text \<open>
  Claim C2. For a successful \<open>processTip\<close> of gross amount \<open>G\<close> on a well-formed store:
  the fee \<open>F\<close> is \<open>G * 2 / 100\<close> rounded to the nearest integer with a tie rounded up,
  which is \<open>(G + 25) div 50\<close>; the sender's balance decreases by exactly \<open>G\<close>; the
  recipient's balance increases by exactly \<open>G - F\<close>; and the transactions written are, in
  this order, one completed fee transaction against the sender when \<open>F > 0\<close> (none
  otherwise), the sender's tip_sent and the recipient's tip_received. The fee transaction
  records the charge of \<open>F\<close> as the signed amount \<open>- F\<close>, as the tip_sent transaction
  records \<open>- G\<close>.
\<close>

theorem processTip_conservation:
  assumes wf: "wellFormed s"
    and ok: "processTip s now fault senderId recipientId G plat desc anon = (Success tipId nb, s')"
  shows "tipFee G = (G + 25) div 50
       \<and> of_int (tipFee G) \<le> (of_int G * (2 / 100) + 1 / 2 :: rat)
       \<and> (of_int G * (2 / 100) + 1 / 2 :: rat) < of_int (tipFee G) + 1
       \<and> balanceOf s' senderId = balanceOf s senderId - G
       \<and> balanceOf s' recipientId = balanceOf s recipientId + (G - tipFee G)
       \<and> map (\<lambda>t. (t_type t, t_userId t, t_amount t, t_status t)) (transactions s') =
           map (\<lambda>t. (t_type t, t_userId t, t_amount t, t_status t)) (transactions s) @
             (if 0 < tipFee G then [(Fee, senderId, - tipFee G, Completed)] else []) @
             [(TipSent, senderId, - G, Completed), (TipReceived, recipientId, G - tipFee G, Completed)]"
proof -
  have ne: "senderId \<noteq> recipientId"
    using ok by (auto simp: processTip_def)
  obtain sw where sw: "getWalletByUserId s senderId = Some sw"
    using ok ne by (cases "getWalletByUserId s senderId") (auto simp: processTip_def)
  have swin: "sw \<in> set (wallets s)" "userId sw = senderId"
    using find_in_set [OF sw [unfolded getWalletByUserId_def]] by auto
  have round: "of_int (tipFee G) \<le> (of_int G * (2 / 100) + 1 / 2 :: rat)
             \<and> (of_int G * (2 / 100) + 1 / 2 :: rat) < of_int (tipFee G) + 1"
    unfolding tipFee_def Math_round_def by linarith
  let ?f = "\<lambda>w. w\<lparr>balance := balance sw - G, totalTipsSent := totalTipsSent sw + G,
                    lastTransactionAt := Some now, updatedAt := now\<rparr>"
  have rest: "balanceOf s' senderId = balanceOf s senderId - G
       \<and> balanceOf s' recipientId = balanceOf s recipientId + (G - tipFee G)
       \<and> map (\<lambda>t. (t_type t, t_userId t, t_amount t, t_status t)) (transactions s') =
           map (\<lambda>t. (t_type t, t_userId t, t_amount t, t_status t)) (transactions s) @
             (if 0 < tipFee G then [(Fee, senderId, - tipFee G, Completed)] else []) @
             [(TipSent, senderId, - G, Completed), (TipReceived, recipientId, G - tipFee G, Completed)]"
  proof (cases "getWalletByUserId s recipientId")
    case (Some rw)
    let ?g = "\<lambda>w. w\<lparr>balance := balance rw + (G - tipFee G),
                      totalTipsReceived := totalTipsReceived rw + (G - tipFee G),
                      lastTransactionAt := Some now, updatedAt := now\<rparr>"
    have rwin: "rw \<in> set (wallets s)" "userId rw = recipientId"
      using find_in_set [OF Some [unfolded getWalletByUserId_def]] by auto
    have widne: "wid sw \<noteq> wid rw"
      using distinct_wid_eq [OF _ swin(1) rwin(1)] wf swin rwin ne by (auto simp: wellFormed_def)
    have settle: "processTip_settle s now fault sw rw senderId recipientId G plat desc anon
                    = (Success tipId nb, s')"
      using ok ne sw Some by (simp add: processTip_def)
    note S = processTip_settle_Success [OF settle]
    have "getWalletByUserId s' senderId = Some (?f sw) \<and> getWalletByUserId s' recipientId = Some (?g rw)"
      by (rule balanceOf_settled [where s = s, OF _ _ _ _ sw Some widne]) (use S in simp_all)
    then show ?thesis using S sw Some by (simp add: balanceOf_def)
  next
    case None
    define nw where "nw = createWalletData now (nextId s) recipientId (currency sw)"
    define s0 where "s0 = s\<lparr>nextId := Suc (nextId s), wallets := wallets s @ [nw]\<rparr>"
    let ?g = "\<lambda>w. w\<lparr>balance := balance nw + (G - tipFee G),
                      totalTipsReceived := totalTipsReceived nw + (G - tipFee G),
                      lastTransactionAt := Some now, updatedAt := now\<rparr>"
    have nofault: "fault \<noteq> Some CreateRecipientWallet"
      using ok ne sw None by (auto simp: processTip_def)
    have settle: "processTip_settle s0 now fault sw nw senderId recipientId G plat desc anon
                    = (Success tipId nb, s')"
      using ok ne sw None nofault by (simp add: processTip_def createWallet_eq s0_def nw_def)
    note S = processTip_settle_Success [OF settle]
    have sw0: "getWalletByUserId s0 senderId = Some sw"
      using sw by (simp add: getWalletByUserId_def s0_def find_append_Some)
    have rw0: "getWalletByUserId s0 recipientId = Some nw"
      using None by (simp add: getWalletByUserId_def s0_def find_append_None nw_def createWalletData_def)
    have "wid sw < nextId s"
      using wf swin by (auto simp: wellFormed_def list_all_iff)
    then have widne: "wid sw \<noteq> wid nw"
      by (simp add: nw_def createWalletData_def)
    have "getWalletByUserId s' senderId = Some (?f sw) \<and> getWalletByUserId s' recipientId = Some (?g nw)"
      by (rule balanceOf_settled [where s = s0, OF _ _ _ _ sw0 rw0 widne]) (use S in simp_all)
    moreover have "transactions s0 = transactions s" "balance nw = 0"
      by (simp_all add: s0_def nw_def createWalletData_def)
    ultimately show ?thesis using S sw None by (simp add: balanceOf_def)
  qed
  show ?thesis using tipFee_eq round rest by blast
qed

text \<open>
  The theorem at a tip of 500 from alice (balance 1000) to bob (balance 0): fee 10.
\<close>

theorem processTip_conservation_witness:
  "wellFormed twoWallets
   \<and> fst (processTip twoWallets 0 None ''alice'' ''bob'' 500 MobileApp None False) = Success 100 500
   \<and> tipFee 500 = 10
   \<and> balanceOf twoWallets ''alice'' = 1000
   \<and> balanceOf (snd (processTip twoWallets 0 None ''alice'' ''bob'' 500 MobileApp None False)) ''alice'' = 500
   \<and> balanceOf (snd (processTip twoWallets 0 None ''alice'' ''bob'' 500 MobileApp None False)) ''bob'' = 490
   \<and> map (\<lambda>t. (t_type t, t_userId t, t_amount t, t_status t))
        (transactions (snd (processTip twoWallets 0 None ''alice'' ''bob'' 500 MobileApp None False)))
      = [(Fee, ''alice'', - 10, Completed), (TipSent, ''alice'', - 500, Completed),
         (TipReceived, ''bob'', 490, Completed)]"
proof -
  let ?r = "processTip twoWallets 0 None ''alice'' ''bob'' 500 MobileApp None False"
  have wf: "wellFormed twoWallets"
    by (simp add: wellFormed_def sample_defs)
  have res: "fst ?r = Success 100 500"
    by (simp add: eval_defs sample_defs)
  then have ok: "?r = (Success 100 500, snd ?r)"
    by (metis prod.collapse)
  have fee: "tipFee 500 = 10"
    using processTip_conservation [OF wf ok] by simp
  have pre: "balanceOf twoWallets ''alice'' = 1000" "balanceOf twoWallets ''bob'' = 0"
    "transactions twoWallets = []"
    by (simp_all add: balanceOf_def getWalletByUserId_def sample_defs)
  show ?thesis
    using processTip_conservation [OF wf ok] wf res pre unfolding fee by simp
qed

subsection \<open>Tip limits\<close>

text \<open>
  Claim C3. \<open>processTip\<close> never calls \<open>validateTransactionLimits\<close>: a tip of 5, below the
  minimum of 10 that the limit policy reports for it, succeeds, moves 5 from alice to bob
  and writes a Tip record.
\<close>

theorem processTip_ignores_limits:
  "validateTransactionLimits 0 5 TipLimit [] = Invalid (MinimumAmount TipLimit 10)
   \<and> fst (processTip twoWallets 0 None ''alice'' ''bob'' 5 MobileApp None False) = Success 100 995
   \<and> balanceOf (snd (processTip twoWallets 0 None ''alice'' ''bob'' 5 MobileApp None False)) ''alice'' = 995
   \<and> balanceOf (snd (processTip twoWallets 0 None ''alice'' ''bob'' 5 MobileApp None False)) ''bob'' = 5
   \<and> length (tips (snd (processTip twoWallets 0 None ''alice'' ''bob'' 5 MobileApp None False))) = 1"
  by (simp add: eval_defs sample_defs validateTransactionLimits_def limits_def)

subsection \<open>A failing recipient update\<close>

text \<open>
  Claim C4, as amended. When the update of the recipient's wallet throws after the update
  of the sender's wallet has been written, \<open>processTip\<close> returns a failure, the sender's
  balance stays lowered by the gross amount (no compensating credit is made), and no Tip
  and no Transaction record is written.
\<close>

theorem processTip_recipient_update_fails:
  assumes "senderId \<noteq> recipientId"
    and "getWalletByUserId s senderId = Some sw"
    and "G \<le> balance sw"
    and "processTip s now (Some UpdateRecipientWallet) senderId recipientId G plat desc anon = (res, s')"
  shows "res = Failure StoreWriteFailed
       \<and> balanceOf s' senderId = balanceOf s senderId - G
       \<and> tips s' = tips s
       \<and> transactions s' = transactions s"
proof (cases "getWalletByUserId s recipientId")
  case (Some rw)
  then show ?thesis
    using assms getWallet_single_update [OF assms(2), of _ "[]"]
    by (auto simp: processTip_def processTip_settle_def Let_def updateWalletData_def
          balanceOf_def getWalletByUserId_def)
next
  case None
  then show ?thesis
    using assms getWallet_single_update [OF assms(2)]
    by (auto simp: processTip_def processTip_settle_def Let_def updateWalletData_def
          balanceOf_def getWalletByUserId_def createWallet_eq)
qed

text \<open>
  The theorem at a tip of 500 from alice (balance 1000) to bob.
\<close>

theorem processTip_recipient_update_fails_witness:
  "''alice'' \<noteq> ''bob''
   \<and> getWalletByUserId twoWallets ''alice'' = Some (sampleWallet 11 ''alice'' 1000)
   \<and> fst (processTip twoWallets 0 (Some UpdateRecipientWallet) ''alice'' ''bob'' 500 MobileApp None False)
       = Failure StoreWriteFailed
   \<and> balanceOf (snd (processTip twoWallets 0 (Some UpdateRecipientWallet) ''alice'' ''bob'' 500
        MobileApp None False)) ''alice'' = 500"
proof -
  let ?r = "processTip twoWallets 0 (Some UpdateRecipientWallet) ''alice'' ''bob'' 500 MobileApp None False"
  have ne: "''alice'' \<noteq> ''bob''" by simp
  have sw: "getWalletByUserId twoWallets ''alice'' = Some (sampleWallet 11 ''alice'' 1000)"
    by (simp add: getWalletByUserId_def sample_defs)
  have le: "500 \<le> balance (sampleWallet 11 ''alice'' 1000)"
    by (simp add: sample_defs)
  have r: "?r = (fst ?r, snd ?r)" by simp
  have pre: "balanceOf twoWallets ''alice'' = 1000"
    by (simp add: balanceOf_def getWalletByUserId_def sample_defs)
  show ?thesis
    using processTip_recipient_update_fails [OF ne sw le r] ne sw pre by simp
qed

text \<open>
  The sender is not refunded and no failed Tip record exists: alice held 1000 before the
  call and holds 500 after it, and the \<open>tips\<close> collection is empty.
\<close>

theorem processTip_compensation_counterexample:
  "fst (processTip twoWallets 0 (Some UpdateRecipientWallet) ''alice'' ''bob'' 500 MobileApp None False)
     = Failure StoreWriteFailed
   \<and> balanceOf twoWallets ''alice'' = 1000
   \<and> balanceOf (snd (processTip twoWallets 0 (Some UpdateRecipientWallet) ''alice'' ''bob'' 500
        MobileApp None False)) ''alice'' = 500
   \<and> balanceOf (snd (processTip twoWallets 0 (Some UpdateRecipientWallet) ''alice'' ''bob'' 500
        MobileApp None False)) ''bob'' = 0
   \<and> tips (snd (processTip twoWallets 0 (Some UpdateRecipientWallet) ''alice'' ''bob'' 500
        MobileApp None False)) = []
   \<and> transactions (snd (processTip twoWallets 0 (Some UpdateRecipientWallet) ''alice'' ''bob'' 500
        MobileApp None False)) = []"
  by (simp add: eval_defs sample_defs)

subsection \<open>Non-negative balances\<close>

lemma getWallet_nonneg:
  "balancesNonneg s \<Longrightarrow> getWalletByUserId s uid = Some w \<Longrightarrow> 0 \<le> balance w"
  using find_in_set [of "\<lambda>w. userId w = uid" "wallets s" w]
  by (auto simp: balancesNonneg_def getWalletByUserId_def list_all_iff)

lemma creditWallet_nonneg:
  assumes "balancesNonneg s" and "0 \<le> amount"
  shows "balancesNonneg (snd (creditWallet s now uid amount d r m))"
proof (cases "getWalletByUserId s uid")
  case None
  then show ?thesis using assms by (simp add: creditWallet_def)
next
  case (Some w)
  have "0 \<le> balance w + amount"
    using assms getWallet_nonneg [OF assms(1) Some] by simp
  then have "list_all (\<lambda>w. 0 \<le> balance w) (updateWalletDoc (wid w)
                  (\<lambda>x. x\<lparr>balance := balance w + amount, totalDeposits := totalDeposits w + amount,
                          lastTransactionAt := Some now, updatedAt := now\<rparr>) (wallets s))"
    using assms(1) by (intro list_all_updateWalletDoc) (simp_all add: balancesNonneg_def)
  then show ?thesis
    by (simp add: creditWallet_found [OF Some] balancesNonneg_def)
qed

lemma processReferralBonus_nonneg:
  assumes "balancesNonneg s" and "0 \<le> amount"
  shows "balancesNonneg (snd (processReferralBonus s now uid referred level amount))"
proof (cases "getWalletByUserId s uid")
  case None
  then show ?thesis using assms by (simp add: processReferralBonus_def)
next
  case (Some w)
  have "0 \<le> balance w + amount"
    using assms getWallet_nonneg [OF assms(1) Some] by simp
  then have "list_all (\<lambda>w. 0 \<le> balance w) (updateWalletDoc (wid w)
                  (\<lambda>x. x\<lparr>balance := balance w + amount,
                          totalReferralEarnings := totalReferralEarnings w + amount,
                          lastTransactionAt := Some now, updatedAt := now\<rparr>) (wallets s))"
    using assms(1) by (intro list_all_updateWalletDoc) (simp_all add: balancesNonneg_def)
  then show ?thesis
    by (simp add: processReferralBonus_found [OF Some] balancesNonneg_def)
qed

lemma debitWallet_nonneg:
  assumes "balancesNonneg s"
  shows "balancesNonneg (snd (debitWallet s now uid amount d fee r m))"
proof (cases "getWalletByUserId s uid")
  case None
  then show ?thesis using assms by (simp add: debitWallet_def)
next
  case (Some w)
  show ?thesis
  proof (cases "balance w < amount")
    case True
    then show ?thesis using assms Some by (simp add: debitWallet_def)
  next
    case False
    then have le: "amount \<le> balance w" by simp
    then have "list_all (\<lambda>w. 0 \<le> balance w) (updateWalletDoc (wid w)
                  (\<lambda>x. x\<lparr>balance := balance w - amount, totalWithdrawals := totalWithdrawals w + amount,
                          lastTransactionAt := Some now, updatedAt := now\<rparr>) (wallets s))"
      using assms(1) by (intro list_all_updateWalletDoc) (simp_all add: balancesNonneg_def)
    then show ?thesis
      by (simp add: debitWallet_found [OF Some le] balancesNonneg_def)
  qed
qed

lemma processTip_settle_nonneg:
  assumes "list_all (\<lambda>w. 0 \<le> balance w) (wallets s)" and "0 \<le> balance rw" and "0 \<le> G"
    and "G \<le> balance sw \<Longrightarrow> 0 \<le> balance sw - G"
  shows "list_all (\<lambda>w. 0 \<le> balance w)
           (wallets (snd (processTip_settle s now fault sw rw sid rid G plat d anon)))"
proof -
  let ?f = "\<lambda>w. w\<lparr>balance := balance sw - G, totalTipsSent := totalTipsSent sw + G,
                    lastTransactionAt := Some now, updatedAt := now\<rparr>"
  let ?g = "\<lambda>w. w\<lparr>balance := balance rw + (G - (G + 25) div 50),
                    totalTipsReceived := totalTipsReceived rw + (G - (G + 25) div 50),
                    lastTransactionAt := Some now, updatedAt := now\<rparr>"
  let ?w1 = "updateWalletDoc (wid sw) ?f (wallets s)"
  let ?w2 = "updateWalletDoc (wid rw) ?g ?w1"
  have cases: "wallets (snd (processTip_settle s now fault sw rw sid rid G plat d anon))
                 \<in> {wallets s, ?w1, ?w2}"
    by (simp add: processTip_settle_def Let_def uuidv4_def updateWalletData_def Math_round_tip'
          split: sum.splits prod.splits)
  have ge: "G \<le> balance sw \<Longrightarrow> list_all (\<lambda>w. 0 \<le> balance w) ?w1"
    using assms(4) by (intro list_all_updateWalletDoc [OF assms(1)]) simp_all
  have "G \<le> balance sw \<Longrightarrow> list_all (\<lambda>w. 0 \<le> balance w) ?w2"
    using assms(2,3) tip_net_nonneg [of G] by (intro list_all_updateWalletDoc [OF ge]) simp_all
  moreover have "\<not> G \<le> balance sw \<Longrightarrow>
       wallets (snd (processTip_settle s now fault sw rw sid rid G plat d anon)) = wallets s"
    by (simp add: processTip_settle_def Let_def)
  ultimately show ?thesis using cases ge assms(1) by (cases "G \<le> balance sw") auto
qed

lemma processTip_nonneg:
  assumes "balancesNonneg s" and "0 \<le> G"
  shows "balancesNonneg (snd (processTip s now fault sid rid G plat d anon))"
proof (cases "sid = rid \<or> getWalletByUserId s sid = None")
  case True
  then show ?thesis using assms by (auto simp: processTip_def)
next
  case False
  then obtain sw where sw: "sid \<noteq> rid" "getWalletByUserId s sid = Some sw" by auto
  show ?thesis
  proof (cases "getWalletByUserId s rid")
    case (Some rw)
    have "list_all (\<lambda>w. 0 \<le> balance w)
           (wallets (snd (processTip_settle s now fault sw rw sid rid G plat d anon)))"
      using assms getWallet_nonneg [OF assms(1) Some]
      by (intro processTip_settle_nonneg) (simp_all add: balancesNonneg_def)
    then show ?thesis
      using sw Some by (simp add: processTip_def balancesNonneg_def)
  next
    case None
    define nw where "nw = createWalletData now (nextId s) rid (currency sw)"
    define s0 where "s0 = s\<lparr>nextId := Suc (nextId s), wallets := wallets s @ [nw]\<rparr>"
    have "list_all (\<lambda>w. 0 \<le> balance w)
           (wallets (snd (processTip_settle s0 now fault sw nw sid rid G plat d anon)))"
      using assms
      by (intro processTip_settle_nonneg)
         (simp_all add: balancesNonneg_def s0_def nw_def createWalletData_def)
    then show ?thesis
      using sw None assms
      by (simp add: processTip_def balancesNonneg_def createWallet_eq uuidv4_def s0_def nw_def)
  qed
qed

lemma applyOp_nonneg:
  assumes "balancesNonneg s" and "nonnegAmount op"
  shows "balancesNonneg (applyOp s (now, op))"
  using assms
  by (cases op)
     (simp_all add: creditWallet_nonneg processReferralBonus_nonneg debitWallet_nonneg
        processTip_nonneg)

lemma runOps_nonneg:
  "balancesNonneg s \<Longrightarrow> list_all (\<lambda>op. nonnegAmount (snd op)) ops \<Longrightarrow> balancesNonneg (runOps s ops)"
  unfolding runOps_def
proof (induction ops arbitrary: s)
  case Nil
  then show ?case by simp
next
  case (Cons op ops)
  obtain now w where op: "op = (now, w)" by (cases op)
  have "balancesNonneg (applyOp s op)"
    using Cons.prems unfolding op by (intro applyOp_nonneg) simp_all
  then show ?case using Cons by simp
qed

text \<open>
  Claim C1, as amended. Starting from a store in which every wallet balance is at least 0,
  after each operation of a sequence of credits, referral bonuses, debits and tips every
  wallet balance is at least 0, provided the amounts of the credits, bonuses and tips are
  not negative. Debits may carry any amount, and a tip may fail at any of its store
  writes.
\<close>

theorem balance_nonneg_invariant:
  assumes "balancesNonneg s" and "list_all (\<lambda>op. nonnegAmount (snd op)) ops"
  shows "balancesNonneg (runOps s (take n ops))"
proof -
  have "list_all (\<lambda>op. nonnegAmount (snd op)) (take n ops)"
    using assms(2) by (auto simp: list_all_iff dest: in_set_takeD)
  with assms(1) show ?thesis by (rule runOps_nonneg)
qed

text \<open>
  The theorem after the first two of three operations on the wallets of alice and bob.
\<close>

theorem balance_nonneg_invariant_witness:
  "balancesNonneg twoWallets
   \<and> balancesNonneg (runOps twoWallets
        (take 2 [(0, TipOp None ''alice'' ''bob'' 500 MobileApp None False),
                 (1, DebitOp ''bob'' 90 ''cash out'' 0 None None),
                 (2, CreditOp ''alice'' 10 ''top up'' None None)]))"
proof -
  have a: "balancesNonneg twoWallets"
    by (simp add: balancesNonneg_def sample_defs)
  have b: "list_all (\<lambda>op. nonnegAmount (snd op))
             [(0, TipOp None ''alice'' ''bob'' 500 MobileApp None False),
              (1, DebitOp ''bob'' 90 ''cash out'' 0 None None),
              (2, CreditOp ''alice'' 10 ''top up'' None None)]"
    by simp
  show ?thesis using balance_nonneg_invariant [OF a b, of 2] a by simp
qed

text \<open>
  Without the condition on the amounts the invariant fails: a credit of -1 to a wallet
  holding 0 leaves it at -1.
\<close>

theorem balance_invariant_counterexample:
  "balancesNonneg (sampleStore [sampleWallet 11 ''alice'' 0])
   \<and> \<not> balancesNonneg (runOps (sampleStore [sampleWallet 11 ''alice'' 0])
           [(0, CreditOp ''alice'' (- 1) ''adjustment'' None None)])"
  by (simp add: balancesNonneg_def runOps_def eval_defs sample_defs)

subsection \<open>Limit policy\<close>

lemma foldl_abs_sum:
  "foldl (\<lambda>sum t. sum + \<bar>t_amount t\<bar>) a xs = a + sum_list (map (\<lambda>t. \<bar>t_amount t\<bar>) xs)"
  by (induction xs arbitrary: a) auto

text \<open>
  Claim C8. \<open>validateTransactionLimits\<close> answers valid exactly when the amount lies between
  the minimum and the maximum of its type and the absolute amounts of the transactions of
  that type created since local midnight, plus the amount, do not exceed the daily limit.
  An invalid answer names the first violated bound in the order minimum, maximum, daily
  limit. The bounds are tip 10, 50 000, 100 000; withdrawal 100, 500 000, 1 000 000; deposit
  100, 2 000 000, 5 000 000; the transactions counted for a tip are those of type tip_sent.
\<close>

theorem validateTransactionLimits_spec:
  "(validateTransactionLimits today amount ty txs = Valid \<longleftrightarrow>
      minimum (limits ty) \<le> amount \<and> amount \<le> maximum (limits ty)
      \<and> todayTotal today ty txs + amount \<le> dailyLimit (limits ty))
   \<and> (amount < minimum (limits ty) \<longrightarrow>
        validateTransactionLimits today amount ty txs
          = Invalid (MinimumAmount ty (minimum (limits ty))))
   \<and> (minimum (limits ty) \<le> amount \<and> maximum (limits ty) < amount \<longrightarrow>
        validateTransactionLimits today amount ty txs
          = Invalid (MaximumAmount ty (maximum (limits ty))))
   \<and> (minimum (limits ty) \<le> amount \<and> amount \<le> maximum (limits ty)
        \<and> dailyLimit (limits ty) < todayTotal today ty txs + amount \<longrightarrow>
        validateTransactionLimits today amount ty txs
          = Invalid (DailyLimitExceeded ty (dailyLimit (limits ty))))
   \<and> limits TipLimit = \<lparr>minimum = 10, maximum = 50000, dailyLimit = 100000\<rparr>
   \<and> limits WithdrawalLimit = \<lparr>minimum = 100, maximum = 500000, dailyLimit = 1000000\<rparr>
   \<and> limits DepositLimit = \<lparr>minimum = 100, maximum = 2000000, dailyLimit = 5000000\<rparr>
   \<and> limitTxType TipLimit = TipSent
   \<and> limitTxType WithdrawalLimit = Withdrawal
   \<and> limitTxType DepositLimit = Deposit"
  by (auto simp: validateTransactionLimits_def Let_def foldl_abs_sum todayTotal_def limits_def
        limitTxType_def)

text \<open>
  The theorem at a withdrawal of 200 000 after withdrawals of 850 000 today, at tips of 5
  and of 50 001, and at a withdrawal of 150 000 after the same 850 000.
\<close>

theorem validateTransactionLimits_spec_witness:
  "minimum (limits WithdrawalLimit) \<le> 200000 \<and> 200000 \<le> maximum (limits WithdrawalLimit)
   \<and> todayTotal 1000 WithdrawalLimit
        [sampleTransaction Withdrawal (- 850000) 2000, sampleTransaction Withdrawal (- 400000) 500,
         sampleTransaction TipSent (- 300) 3000] = 850000
   \<and> validateTransactionLimits 1000 200000 WithdrawalLimit
        [sampleTransaction Withdrawal (- 850000) 2000, sampleTransaction Withdrawal (- 400000) 500,
         sampleTransaction TipSent (- 300) 3000]
       = Invalid (DailyLimitExceeded WithdrawalLimit 1000000)
   \<and> validateTransactionLimits 1000 5 TipLimit [] = Invalid (MinimumAmount TipLimit 10)
   \<and> validateTransactionLimits 1000 50001 TipLimit [] = Invalid (MaximumAmount TipLimit 50000)
   \<and> validateTransactionLimits 1000 150000 WithdrawalLimit
        [sampleTransaction Withdrawal (- 850000) 2000] = Valid"
proof -
  let ?txs = "[sampleTransaction Withdrawal (- 850000) 2000, sampleTransaction Withdrawal (- 400000) 500,
               sampleTransaction TipSent (- 300) 3000]"
  have tot: "todayTotal 1000 WithdrawalLimit ?txs = 850000"
    "todayTotal 1000 WithdrawalLimit [sampleTransaction Withdrawal (- 850000) 2000] = 850000"
    "todayTotal 1000 TipLimit [] = 0"
    by (simp_all add: todayTotal_def sampleTransaction_def createTransactionData_def limitTxType_def)
  have lim: "limits WithdrawalLimit = \<lparr>minimum = 100, maximum = 500000, dailyLimit = 1000000\<rparr>"
    "limits TipLimit = \<lparr>minimum = 10, maximum = 50000, dailyLimit = 100000\<rparr>"
    by (simp_all add: limits_def)
  show ?thesis
    using validateTransactionLimits_spec [of 1000 200000 WithdrawalLimit ?txs]
      validateTransactionLimits_spec [of 1000 5 TipLimit "[]"]
      validateTransactionLimits_spec [of 1000 50001 TipLimit "[]"]
      validateTransactionLimits_spec [of 1000 150000 WithdrawalLimit
        "[sampleTransaction Withdrawal (- 850000) 2000]"]
    unfolding tot lim by simp
qed

subsection \<open>The referral cascade\<close>

lemma completeReferralDoc_keys: "map refKey (completeReferralDoc now i t rs) = map refKey rs"
  by (induction rs) (simp_all add: completeReferralDoc_def refKey_def)

lemma refKey_level1:
  "refKey (createReferralData now i r u (Suc 0) b st c plat) = (r, u, Suc 0)"
  by (simp add: createReferralData_def refKey_def)

lemma createHigherLevelReferral_keys:
  "users (createHigherLevelReferral s now r u lvl plat) = users s
   \<and> map refKey (referrals (createHigherLevelReferral s now r u lvl plat))
       = map refKey (referrals s) @ [(r, u, levelNumber lvl)]"
proof -
  have key: "refKey (createReferralData now i r u (levelNumber lvl) b st c plat)
               = (r, u, levelNumber lvl)" for i b st c
    by (cases lvl) (simp_all add: createReferralData_def refKey_def levelNumber_def)
  show ?thesis
  proof (cases "find (\<lambda>w. userId w = r) (wallets s)")
    case None
    then show ?thesis
      by (simp add: createHigherLevelReferral_def uuidv4_def Let_def processReferralBonus_def
            getWalletByUserId_def key)
  next
    case (Some w)
    then show ?thesis
      by (simp add: createHigherLevelReferral_def uuidv4_def Let_def processReferralBonus_def
            getWalletByUserId_def key completeReferralDoc_keys)
  qed
qed

lemma checkLevel3Eligibility_users:
  "checkLevel3Eligibility rt s now x =
     (case users s x of None \<Rightarrow> False
      | Some u \<Rightarrow> timestampLe rt (u_createdAt u) (setDateBack rt now MIN_ACTIVE_DAYS))"
  by (simp add: checkLevel3Eligibility_def getUserById_def Let_def split: option.split)

lemma processHigherLevelReferrals_keys:
  "users (processHigherLevelReferrals rt s now r u plat) = users s
   \<and> map refKey (referrals (processHigherLevelReferrals rt s now r u plat))
       = map refKey (referrals s) @ higherKeys rt (users s) now r u"
proof (cases "users s r")
  case None
  then show ?thesis
    by (simp add: processHigherLevelReferrals_def getUserById_def higherKeys_def)
next
  case (Some u1)
  show ?thesis
  proof (cases "truthy (u_referredBy u1)")
    case False
    then show ?thesis
      using Some by (simp add: processHigherLevelReferrals_def getUserById_def higherKeys_def)
  next
    case True
    define r2 where "r2 = the (u_referredBy u1)"
    define s1 where "s1 = createHigherLevelReferral s now r2 u Level2 plat"
    have s1: "users s1 = users s" "map refKey (referrals s1) = map refKey (referrals s) @ [(r2, u, 2)]"
      using createHigherLevelReferral_keys [of s now r2 u Level2 plat]
      by (simp_all add: s1_def levelNumber_def)
    show ?thesis
    proof (cases "users s r2")
      case None
      then show ?thesis
        using Some True s1
        by (simp add: processHigherLevelReferrals_def getUserById_def higherKeys_def Let_def
              r2_def [symmetric] s1_def [symmetric])
    next
      case u2: (Some u2)
      show ?thesis
      proof (cases "truthy (u_referredBy u2) \<and> checkLevel3Eligibility rt s1 now (u_id u2)")
        case False
        then show ?thesis
          using Some True s1 u2
          by (auto simp: processHigherLevelReferrals_def getUserById_def higherKeys_def Let_def
                r2_def [symmetric] s1_def [symmetric] checkLevel3Eligibility_users)
      next
        case el: True
        have "users (createHigherLevelReferral s1 now (the (u_referredBy u2)) u Level3 plat) = users s"
          "map refKey (referrals (createHigherLevelReferral s1 now (the (u_referredBy u2)) u Level3 plat))
             = map refKey (referrals s) @ [(r2, u, 2), (the (u_referredBy u2), u, 3)]"
          using createHigherLevelReferral_keys [of s1 now "the (u_referredBy u2)" u Level3 plat] s1
          by (simp_all add: levelNumber_def)
        then show ?thesis
          using Some True s1 u2 el
          by (simp add: processHigherLevelReferrals_def getUserById_def higherKeys_def Let_def
                r2_def [symmetric] s1_def [symmetric] checkLevel3Eligibility_users)
      qed
    qed
  qed
qed

lemma processReferral_keys:
  assumes "users s r = Some u1" and "getReferralByUsers s r u = None"
  shows "fst (processReferral rt s now r u plat)
           = ReferralSuccess (nextId s) (getWalletByUserId s r \<noteq> None)
       \<and> users (snd (processReferral rt s now r u plat)) = users s
       \<and> map refKey (referrals (snd (processReferral rt s now r u plat)))
           = map refKey (referrals s) @
               (r, u, 1) # (if getWalletByUserId s r = None then []
                            else higherKeys rt (users s) now r u)"
proof (cases "find (\<lambda>w. userId w = r) (wallets s)")
  case None
  then show ?thesis
    using assms
    by (simp add: processReferral_def getUserById_def uuidv4_def Let_def processReferralBonus_def
          getWalletByUserId_def refKey_level1)
next
  case (Some w)
  then show ?thesis
    using assms
    by (simp add: processReferral_def getUserById_def uuidv4_def Let_def processReferralBonus_def
          getWalletByUserId_def refKey_level1 completeReferralDoc_keys
          processHigherLevelReferrals_keys [THEN conjunct1]
          processHigherLevelReferrals_keys [THEN conjunct2])
qed


lemma getReferralByUsers_pairRecorded:
  "getReferralByUsers s a b = None \<longleftrightarrow> \<not> pairRecorded s a b"
  by (auto simp: getReferralByUsers_def pairRecorded_def find_None_iff list_ex_iff)

lemma getWallet_hasWallet: "getWalletByUserId s u = None \<longleftrightarrow> \<not> hasWallet s u"
  by (auto simp: getWalletByUserId_def hasWallet_def find_None_iff list_ex_iff)

lemma pairRecorded_keys:
  "pairRecorded s a b \<longleftrightarrow> (\<exists>k \<in> set (map refKey (referrals s)). fst k = a \<and> fst (snd k) = b)"
  by (auto simp: pairRecorded_def list_ex_iff refKey_def)

lemma higherKeys_levels:
  "k \<in> set (higherKeys rt us now r u) \<Longrightarrow> snd (snd k) = 2 \<or> snd (snd k) = 3"
  by (auto simp: higherKeys_def split: option.splits if_splits)

lemma count_level1:
  "length (filter (\<lambda>r. r_referrerId r = a \<and> r_referredId r = b \<and> r_level r = 1) rs)
     = length (filter (\<lambda>k. k = (a, b, 1)) (map refKey rs))"
  by (induction rs) (auto simp: refKey_def)






text \<open>
  Claim C6. For an existing referrer, two calls of \<open>processReferral\<close> in sequence for the
  same (referrer, referred) pair. If the collection held no record of the pair, whatever
  other referrals it holds, the first call succeeds and the store then holds exactly one
  level-1 record of the pair; if it held one, the first call already fails and changes
  nothing. In both cases the second call returns the failure "Referral already exists" and
  leaves the store as the first call left it, so it creates no record and credits no
  bonus.
\<close>

theorem processReferral_idempotent:
  assumes "users s referrerId = Some referrer"
  shows "\<exists>res1 s1. processReferral rt s now referrerId referredId plat = (res1, s1)
          \<and> processReferral rt' s1 now' referrerId referredId plat'
               = (ReferralFailure ReferralAlreadyExists, s1)
          \<and> (if pairRecorded s referrerId referredId
              then res1 = ReferralFailure ReferralAlreadyExists \<and> s1 = s
              else res1 = ReferralSuccess (nextId s) (hasWallet s referrerId)
                   \<and> length (filter (\<lambda>r. r_referrerId r = referrerId \<and> r_referredId r = referredId
                                           \<and> r_level r = 1) (referrals s1)) = 1)"
proof (cases "getReferralByUsers s referrerId referredId")
  case (Some e)
  then have rec: "pairRecorded s referrerId referredId"
    using getReferralByUsers_pairRecorded [of s referrerId referredId] by simp
  have fail: "processReferral rt0 s t0 referrerId referredId p0
                = (ReferralFailure ReferralAlreadyExists, s)" for rt0 t0 p0
    using assms Some by (simp add: processReferral_def getUserById_def)
  show ?thesis
  proof (intro exI conjI)
    show "processReferral rt s now referrerId referredId plat
            = (ReferralFailure ReferralAlreadyExists, s)"
      by (rule fail)
    show "processReferral rt' s now' referrerId referredId plat'
            = (ReferralFailure ReferralAlreadyExists, s)"
      by (rule fail)
    show "if pairRecorded s referrerId referredId
          then ReferralFailure ReferralAlreadyExists = ReferralFailure ReferralAlreadyExists \<and> s = s
          else ReferralFailure ReferralAlreadyExists = ReferralSuccess (nextId s) (hasWallet s referrerId)
               \<and> length (filter (\<lambda>r. r_referrerId r = referrerId \<and> r_referredId r = referredId
                                       \<and> r_level r = 1) (referrals s)) = 1"
      using rec by simp
  qed
next
  case None
  let ?p = "processReferral rt s now referrerId referredId plat"
  let ?s1 = "snd ?p"
  note K = processReferral_keys [OF assms None, of rt now plat]
  have fresh: "\<not> pairRecorded s referrerId referredId"
    using None by (simp add: getReferralByUsers_pairRecorded)
  have us: "users ?s1 referrerId = Some referrer"
    using K assms by simp
  have "pairRecorded ?s1 referrerId referredId"
    unfolding pairRecorded_keys K [THEN conjunct2, THEN conjunct2] by simp
  then obtain e where ex: "getReferralByUsers ?s1 referrerId referredId = Some e"
    using getReferralByUsers_pairRecorded [of ?s1 referrerId referredId] by auto
  have second: "processReferral rt' ?s1 now' referrerId referredId plat'
                  = (ReferralFailure ReferralAlreadyExists, ?s1)"
    unfolding processReferral_def [of rt' ?s1] getUserById_def us ex by simp
  have old: "filter (\<lambda>k. k = (referrerId, referredId, 1)) (map refKey (referrals s)) = []"
    using fresh unfolding pairRecorded_keys by (auto simp: filter_empty_conv)
  have hi: "filter (\<lambda>k. k = (referrerId, referredId, 1))
              (higherKeys rt (users s) now referrerId referredId) = []"
    using higherKeys_levels [of _ rt "users s" now referrerId referredId]
    by (fastforce simp: filter_empty_conv)
  have cnt: "length (filter (\<lambda>r. r_referrerId r = referrerId \<and> r_referredId r = referredId
                                       \<and> r_level r = 1) (referrals ?s1)) = 1"
    unfolding count_level1 K [THEN conjunct2, THEN conjunct2]
    using old hi by simp
  have res: "fst ?p = ReferralSuccess (nextId s) (hasWallet s referrerId)"
    using K [THEN conjunct1] getWallet_hasWallet [of s referrerId] by simp
  show ?thesis
  proof (intro exI conjI)
    show "?p = (fst ?p, ?s1)" by simp
    show "processReferral rt' ?s1 now' referrerId referredId plat'
            = (ReferralFailure ReferralAlreadyExists, ?s1)"
      by (rule second)
    show "if pairRecorded s referrerId referredId
          then fst ?p = ReferralFailure ReferralAlreadyExists \<and> ?s1 = s
          else fst ?p = ReferralSuccess (nextId s) (hasWallet s referrerId)
               \<and> length (filter (\<lambda>r. r_referrerId r = referrerId \<and> r_referredId r = referredId
                                       \<and> r_level r = 1) (referrals ?s1)) = 1"
      using fresh res cnt by simp
  qed
qed

text \<open>
  The theorem for the referrer r1 and a new user, in a collection that already holds
  referrals of r1 for another user and of another referrer for the new user.
\<close>

theorem processReferral_idempotent_witness:
  "users (chainStore ''r2'' [sampleWallet 11 ''r1'' 0]
            [sampleReferral 21 ''r1'' ''other'', sampleReferral 22 ''r9'' ''newbie'']) ''r1''
     = Some (sampleUser ''r1'' (Timestamp 1700000000 0) (Some ''r2''))
   \<and> \<not> pairRecorded (chainStore ''r2'' [sampleWallet 11 ''r1'' 0]
            [sampleReferral 21 ''r1'' ''other'', sampleReferral 22 ''r9'' ''newbie'']) ''r1'' ''newbie''
   \<and> fst (processReferral sampleRuntime
           (chainStore ''r2'' [sampleWallet 11 ''r1'' 0]
              [sampleReferral 21 ''r1'' ''other'', sampleReferral 22 ''r9'' ''newbie''])
           1800000000000 ''r1'' ''newbie'' MobileApp)
       = ReferralSuccess 100 True
   \<and> fst (processReferral sampleRuntime
           (snd (processReferral sampleRuntime
              (chainStore ''r2'' [sampleWallet 11 ''r1'' 0]
                 [sampleReferral 21 ''r1'' ''other'', sampleReferral 22 ''r9'' ''newbie''])
              1800000000000 ''r1'' ''newbie'' MobileApp))
           1800000000001 ''r1'' ''newbie'' Whatsapp)
       = ReferralFailure ReferralAlreadyExists
   \<and> length (filter (\<lambda>r. r_referrerId r = ''r1'' \<and> r_referredId r = ''newbie'' \<and> r_level r = 1)
        (referrals (snd (processReferral sampleRuntime
           (chainStore ''r2'' [sampleWallet 11 ''r1'' 0]
              [sampleReferral 21 ''r1'' ''other'', sampleReferral 22 ''r9'' ''newbie''])
           1800000000000 ''r1'' ''newbie'' MobileApp)))) = 1"
proof -
  let ?S = "chainStore ''r2'' [sampleWallet 11 ''r1'' 0]
              [sampleReferral 21 ''r1'' ''other'', sampleReferral 22 ''r9'' ''newbie'']"
  have u1: "users ?S ''r1'' = Some (sampleUser ''r1'' (Timestamp 1700000000 0) (Some ''r2''))"
    by (simp add: chainStore_def chainUsers_def)
  have fresh: "\<not> pairRecorded ?S ''r1'' ''newbie''"
    by (simp add: pairRecorded_def chainStore_def sampleReferral_def createReferralData_def)
  have w: "hasWallet ?S ''r1''" and n: "nextId ?S = 100"
    by (simp_all add: hasWallet_def chainStore_def sample_defs)
  from processReferral_idempotent
         [OF u1, of sampleRuntime 1800000000000 "''newbie''" MobileApp sampleRuntime 1800000000001
            Whatsapp]
  obtain res1 s1 where
    a: "processReferral sampleRuntime ?S 1800000000000 ''r1'' ''newbie'' MobileApp = (res1, s1)"
    and b: "processReferral sampleRuntime s1 1800000000001 ''r1'' ''newbie'' Whatsapp
              = (ReferralFailure ReferralAlreadyExists, s1)"
    and c: "if pairRecorded ?S ''r1'' ''newbie''
            then res1 = ReferralFailure ReferralAlreadyExists \<and> s1 = ?S
            else res1 = ReferralSuccess (nextId ?S) (hasWallet ?S ''r1'')
                 \<and> length (filter (\<lambda>r. r_referrerId r = ''r1'' \<and> r_referredId r = ''newbie''
                                         \<and> r_level r = 1) (referrals s1)) = 1"
    by (elim exE conjE) (rule that; assumption)
  have c': "res1 = ReferralSuccess 100 True"
    "length (filter (\<lambda>r. r_referrerId r = ''r1'' \<and> r_referredId r = ''newbie'' \<and> r_level r = 1)
       (referrals s1)) = 1"
    using c fresh w n by simp_all
  have f: "fst (processReferral sampleRuntime ?S 1800000000000 ''r1'' ''newbie'' MobileApp) = res1"
    and s1: "snd (processReferral sampleRuntime ?S 1800000000000 ''r1'' ''newbie'' MobileApp) = s1"
    using a by simp_all
  show ?thesis
    unfolding f s1 using u1 fresh b c' by simp
qed




end
